theory Spec2Isabelle
  imports Main
begin

section \<open>Python results: exceptions as values, state threaded explicitly\<close>

text \<open>
  The store (\<open>meld/vault.py\<close>) and the communicator (\<open>meld/comm.py\<close>) are Python classes
  whose methods mutate \<open>self\<close> and the file system, and may raise. A method is modelled as
  a function from the state before the call to the outcome (an exception or a return
  value) together with the state after the call: an exception keeps every mutation
  that happened before it was raised.

  The libraries the two classes call (\<open>os\<close>, \<open>shutil\<close>, \<open>pickle\<close>, \<open>h5py\<close>, \<open>numpy\<close>, MPI)
  are not part of the program. Each call is modelled by the library's documented
  behaviour on the file system, array or dataset it is given, as far as the store uses
  it; the sections below say where the model stops.
\<close>

datatype py_error =
    RuntimeError string
  | IOError
  | OSError
  | ShutilError
  | AttributeError
  | TypeError
  | ValueError
  | KeyError
  | IndexError
  | ZeroDivisionError

type_synonym ('s, 'a) py = "'s \<Rightarrow> (py_error + 'a) \<times> 's"

definition py_return :: "'a \<Rightarrow> ('s, 'a) py" where
  "py_return x = (\<lambda>s. (Inr x, s))"

definition py_raise :: "py_error \<Rightarrow> ('s, 'a) py" where
  "py_raise e = (\<lambda>s. (Inl e, s))"

definition py_bind :: "('s, 'a) py \<Rightarrow> ('a \<Rightarrow> ('s, 'b) py) \<Rightarrow> ('s, 'b) py" where
  "py_bind m f = (\<lambda>s. case m s of (Inl e, s') \<Rightarrow> (Inl e, s') | (Inr x, s') \<Rightarrow> f x s')"

definition py_lift :: "py_error + 'a \<Rightarrow> ('s, 'a) py" where
  "py_lift r = (\<lambda>s. (r, s))"

section \<open>Paths (\<open>os.path\<close>)\<close>

text \<open>\<open>posixpath.join\<close> for two components.\<close>

definition os_path_join :: "string \<Rightarrow> string \<Rightarrow> string" where
  "os_path_join a b =
     (if b \<noteq> [] \<and> hd b = CHR ''/'' then b
      else if a = [] \<or> last a = CHR ''/'' then a @ b
      else a @ ''/'' @ b)"

text \<open>
  \<open>posixpath.split\<close>: the tail is what follows the last slash; the head is what precedes
  it, with trailing slashes stripped unless it consists of slashes only.
\<close>

definition os_path_split :: "string \<Rightarrow> string \<times> string" where
  "os_path_split p =
     (let tail = rev (takeWhile (\<lambda>c. c \<noteq> CHR ''/'') (rev p));
          head = rev (dropWhile (\<lambda>c. c \<noteq> CHR ''/'') (rev p))
      in (if head \<noteq> [] \<and> \<not> list_all (\<lambda>c. c = CHR ''/'') head
          then rev (dropWhile (\<lambda>c. c = CHR ''/'') (rev head)) else head, tail))"

definition os_path_basename :: "string \<Rightarrow> string" where
  "os_path_basename p = snd (os_path_split p)"

section \<open>Arrays and the HDF5 container\<close>

text \<open>
  A numpy array is its shape and its elements in row-major order. The element type
  \<open>'v\<close> stands for the stored float; the store only moves elements around.
\<close>

record 'v ndarray =
  shape :: "nat list"
  flat :: "'v list"

text \<open>
  An h5py dataset whose last axis is the stage axis. In row-major order the last axis
  varies fastest, so the data is one row per index of the leading axes, each row holding
  one element per stage. \<open>maxshape\<close> is recorded as given to \<open>create_dataset\<close>
  (\<open>None\<close> is an unlimited axis).
\<close>

record 'v dataset =
  dshape :: "nat list"
  maxshape :: "nat option list"
  rows :: "'v list list"

type_synonym 'v h5file = "string \<Rightarrow> 'v dataset option"

text \<open>h5py's translation of an integer index on an axis of length \<open>n\<close>: a negative index
  counts from the end, and an index outside the axis raises.\<close>

definition translate_int :: "int \<Rightarrow> nat \<Rightarrow> py_error + nat" where
  "translate_int e n =
     (let e' = (if e < 0 then int n + e else e)
      in if 0 \<le> e' \<and> e' < int n then Inr (nat e') else Inl ValueError)"

text \<open>\<open>dset[..., stage]\<close>: the slice of the leading axes at one stage.\<close>

definition dataset_getitem :: "'v dataset \<Rightarrow> int \<Rightarrow> py_error + 'v ndarray" where
  "dataset_getitem d stage =
     (if dshape d = [] then Inl ValueError
      else case translate_int stage (last (dshape d)) of
             Inl e \<Rightarrow> Inl e
           | Inr i \<Rightarrow> Inr \<lparr>shape = butlast (dshape d), flat = map (\<lambda>r. r ! i) (rows d)\<rparr>)"

text \<open>
  What h5py does with the elements it is given, beyond the indexing modelled here, is a
  parameter of the model:
  \<^item> \<open>to_float\<close> is the conversion of an element to the element type of the series. Every
    series of the store is created with \<open>dtype=float\<close>, so an element that is not a
    float64 value is stored as the float64 it converts to; a float64 value is stored
    as it is.
  \<^item> \<open>broadcast_to\<close> is h5py's broadcasting of a value whose shape is not the shape of the
    selection: the element written at each position of the selection (in row-major
    order), or the error raised when the value cannot be broadcast.
\<close>

record 'v h5py =
  to_float :: "'v \<Rightarrow> 'v"
  broadcast_to :: "nat list \<Rightarrow> 'v ndarray \<Rightarrow> py_error + (nat \<Rightarrow> 'v)"

text \<open>
  \<open>dset[..., stage] = value\<close>. h5py selects first (the index is translated, and raises
  when out of range: a dataset is only ever enlarged by an explicit \<open>resize\<close>), returns
  at once when the selection is empty, and otherwise writes the value, converted to the
  element type of the dataset: element by element when the value has the shape of the
  selection, broadcast otherwise.
\<close>

definition dataset_setitem ::
  "'v h5py \<Rightarrow> 'v dataset \<Rightarrow> int \<Rightarrow> 'v ndarray \<Rightarrow> py_error + 'v dataset" where
  "dataset_setitem lib d stage v =
     (if dshape d = [] then Inl ValueError
      else case translate_int stage (last (dshape d)) of
             Inl e \<Rightarrow> Inl e
           | Inr i \<Rightarrow>
               if prod_list (butlast (dshape d)) = 0 then Inr d
               else if shape v = butlast (dshape d) \<and> length (flat v) = length (rows d)
               then Inr (d\<lparr>rows := map2 (\<lambda>r x. r[i := to_float lib x]) (rows d) (flat v)\<rparr>)
               else case broadcast_to lib (butlast (dshape d)) v of
                      Inl e \<Rightarrow> Inl e
                    | Inr g \<Rightarrow>
                        Inr (d\<lparr>rows := map2 (\<lambda>r j. r[i := to_float lib (g j)]) (rows d)
                                          [0..<length (rows d)]\<rparr>))"

section \<open>The file system\<close>

text \<open>
  The pickled form of the two classes is what \<open>__getstate__\<close> returns: the instance
  dictionary without the runtime handle. The communicator's \<open>_my_rank\<close> attribute exists
  only once \<open>initialize\<close> has run, so it is optional.
\<close>

record store_state =
  st_n_atoms :: nat
  st_n_springs :: nat
  st_n_replicas :: nat
  st_backup_freq :: int

record comm_state =
  cs_n_atoms :: nat
  cs_n_replicas :: nat
  cs_n_springs :: nat
  cs_my_rank :: "int option"

text \<open>The exchange runner is opaque to the store: its pickle is kept as a blob.\<close>

datatype pickled = PickledStore store_state | PickledComm comm_state | PickledRunner string

datatype 'v node = Dir | PickleFile pickled | H5File "'v h5file"

type_synonym 'v filesystem = "string \<Rightarrow> 'v node option"

text \<open>The directory that must exist for a path to be created: the head of the path; an
  empty head is the working directory.\<close>

definition parent_ok :: "'v filesystem \<Rightarrow> string \<Rightarrow> bool" where
  "parent_ok fs p = (fst (os_path_split p) = [] \<or> fs (fst (os_path_split p)) = Some Dir)"

definition os_path_exists :: "string \<Rightarrow> ('v filesystem, bool) py" where
  "os_path_exists p = (\<lambda>fs. (Inr (fs p \<noteq> None), fs))"

definition os_mkdir :: "string \<Rightarrow> ('v filesystem, unit) py" where
  "os_mkdir p = (\<lambda>fs.
     if fs p \<noteq> None \<or> \<not> parent_ok fs p then (Inl OSError, fs)
     else (Inr (), fs(p \<mapsto> Dir)))"

text \<open>\<open>shutil.copy(src, dst)\<close>: into the directory \<open>dst\<close> when it is one, onto the file
  \<open>dst\<close> otherwise.\<close>

definition shutil_copy :: "string \<Rightarrow> string \<Rightarrow> ('v filesystem, unit) py" where
  "shutil_copy src dst = (\<lambda>fs.
     let dst' = (if fs dst = Some Dir then os_path_join dst (os_path_basename src) else dst)
     in case fs src of
          None \<Rightarrow> (Inl IOError, fs)
        | Some Dir \<Rightarrow> (Inl IOError, fs)
        | Some content \<Rightarrow>
            if src = dst' then (Inl ShutilError, fs)
            else if fs dst' = Some Dir \<or> \<not> parent_ok fs dst' then (Inl IOError, fs)
            else (Inr (), fs(dst' \<mapsto> content)))"

subsection \<open>h5py file handles\<close>

text \<open>The two modes the store opens the container with: \<open>'w-'\<close> (create, fail if the
  file exists) and \<open>'a'\<close> (read/write if it exists, create otherwise).\<close>

datatype h5mode = ModeCreateExcl | ModeAppend

record h5handle =
  h_path :: string
  h_mode :: h5mode
  h_open :: bool

definition h5py_File :: "string \<Rightarrow> h5mode \<Rightarrow> ('v filesystem, h5handle) py" where
  "h5py_File p m = (\<lambda>fs.
     case m of
       ModeCreateExcl \<Rightarrow>
         if fs p \<noteq> None \<or> \<not> parent_ok fs p then (Inl IOError, fs)
         else (Inr \<lparr>h_path = p, h_mode = m, h_open = True\<rparr>, fs(p \<mapsto> H5File (\<lambda>_. None)))
     | ModeAppend \<Rightarrow>
         (case fs p of
            None \<Rightarrow>
              if \<not> parent_ok fs p then (Inl IOError, fs)
              else (Inr \<lparr>h_path = p, h_mode = m, h_open = True\<rparr>, fs(p \<mapsto> H5File (\<lambda>_. None)))
          | Some (H5File f) \<Rightarrow> (Inr \<lparr>h_path = p, h_mode = m, h_open = True\<rparr>, fs)
          | Some _ \<Rightarrow> (Inl IOError, fs)))"

text \<open>The container a handle gives access to; a closed handle gives none.\<close>

definition handle_file :: "h5handle \<Rightarrow> 'v filesystem \<Rightarrow> py_error + 'v h5file" where
  "handle_file h fs =
     (if \<not> h_open h then Inl ValueError
      else case fs (h_path h) of Some (H5File f) \<Rightarrow> Inr f | _ \<Rightarrow> Inl IOError)"

text \<open>
  \<open>create_dataset(name, shape=..., maxshape=..., compression='gzip', ...)\<close>: the new
  dataset is filled with the fill value 0. A scalar dataset cannot carry the filter
  options the store passes, and an existing name cannot be created again.
\<close>

definition file_create_dataset ::
  "h5handle \<Rightarrow> string \<Rightarrow> nat list \<Rightarrow> nat option list \<Rightarrow> ('v::zero filesystem, unit) py" where
  "file_create_dataset h name shp mx = (\<lambda>fs.
     case handle_file h fs of
       Inl e \<Rightarrow> (Inl e, fs)
     | Inr f \<Rightarrow>
         if shp = [] then (Inl TypeError, fs)
         else if f name \<noteq> None then (Inl ValueError, fs)
         else (Inr (), fs(h_path h \<mapsto> H5File (f(name \<mapsto>
                 \<lparr>dshape = shp, maxshape = mx,
                  rows = replicate (prod_list (butlast shp)) (replicate (last shp) 0)\<rparr>)))))"

section \<open>\<open>DataStore\<close>\<close>

record DataStore =
  n_atoms :: nat
  n_springs :: nat
  n_replicas :: nat
  backup_freq :: int
  h5_file :: "h5handle option"

type_synonym 'v world = "DataStore \<times> 'v filesystem"

definition data_dir :: string where "data_dir = ''Data''"
definition backup_dir :: string where "backup_dir = os_path_join data_dir ''Backup''"
definition data_store_path :: string where "data_store_path = os_path_join data_dir ''data_store.dat''"
definition communicator_path :: string where "communicator_path = os_path_join data_dir ''communicator.dat''"
definition remd_runner_path :: string where "remd_runner_path = os_path_join data_dir ''remd_runner.dat''"
definition h5_path :: string where "h5_path = os_path_join data_dir ''results.h5''"

text \<open>\<open>__init__(n_atoms, n_springs, n_replicas, backup_freq)\<close>; the source gives
  \<open>backup_freq\<close> the default 100, here it is always passed.\<close>

definition DataStore_init :: "nat \<Rightarrow> nat \<Rightarrow> nat \<Rightarrow> int \<Rightarrow> DataStore" where
  "DataStore_init a s r f =
     \<lparr>n_atoms = a, n_springs = s, n_replicas = r, backup_freq = f, h5_file = None\<rparr>"

text \<open>Running a file-system action from a method: \<open>self\<close> is untouched.\<close>

definition on_fs :: "('v filesystem, 'a) py \<Rightarrow> ('v world, 'a) py" where
  "on_fs m = (\<lambda>(st, fs). case m fs of (r, fs') \<Rightarrow> (r, (st, fs')))"

definition set_h5_file :: "h5handle option \<Rightarrow> ('v world, unit) py" where
  "set_h5_file h = (\<lambda>(st, fs). (Inr (), (st\<lparr>h5_file := h\<rparr>, fs)))"

text \<open>\<open>self._h5_file.create_dataset(...)\<close>: an attribute access on \<open>None\<close> when the store
  is not open.\<close>

definition create_dataset ::
  "string \<Rightarrow> nat list \<Rightarrow> nat option list \<Rightarrow> ('v::zero world, unit) py" where
  "create_dataset name shp mx = (\<lambda>(st, fs).
     case h5_file st of
       None \<Rightarrow> (Inl AttributeError, (st, fs))
     | Some h \<Rightarrow> on_fs (file_create_dataset h name shp mx) (st, fs))"

definition setup_positions :: "('v::zero world, unit) py" where
  "setup_positions = (\<lambda>(st, fs).
     create_dataset ''positions'' [n_replicas st, n_atoms st, 3, 1]
       [Some (n_replicas st), Some (n_atoms st), Some 3, None] (st, fs))"

definition setup_velocities :: "('v::zero world, unit) py" where
  "setup_velocities = (\<lambda>(st, fs).
     create_dataset ''velocities'' [n_replicas st, n_atoms st, 3, 1]
       [Some (n_replicas st), Some (n_atoms st), Some 3, None] (st, fs))"

definition setup_spring_states :: "('v::zero world, unit) py" where
  "setup_spring_states = (\<lambda>(st, fs).
     create_dataset ''spring_states'' [n_replicas st, n_springs st, 1]
       [Some (n_replicas st), Some (n_springs st), None] (st, fs))"

definition setup_spring_energies :: "('v::zero world, unit) py" where
  "setup_spring_energies = (\<lambda>(st, fs).
     create_dataset ''spring_energies'' [n_replicas st, n_springs st, 1]
       [Some (n_replicas st), Some (n_springs st), None] (st, fs))"

definition setup_lambdas :: "('v::zero world, unit) py" where
  "setup_lambdas = (\<lambda>(st, fs).
     create_dataset ''lambdas'' [n_replicas st, 1] [Some (n_replicas st), None] (st, fs))"

definition setup_energies :: "('v::zero world, unit) py" where
  "setup_energies = (\<lambda>(st, fs).
     create_dataset ''energies'' [n_replicas st, 1] [Some (n_replicas st), None] (st, fs))"

definition setup_h5_datasets :: "('v::zero world, unit) py" where
  "setup_h5_datasets =
     py_bind setup_positions (\<lambda>_.
     py_bind setup_velocities (\<lambda>_.
     py_bind setup_spring_states (\<lambda>_.
     py_bind setup_spring_energies (\<lambda>_.
     py_bind setup_lambdas (\<lambda>_.
     setup_energies)))))"

definition initialize :: "string \<Rightarrow> ('v::zero world, unit) py" where
  "initialize mode =
     (if mode = ''new'' then
        py_bind (on_fs (os_path_exists data_dir)) (\<lambda>ex.
        if ex then py_raise (RuntimeError ''Data directory already exists'')
        else
          py_bind (on_fs (os_mkdir data_dir)) (\<lambda>_.
          py_bind (on_fs (os_mkdir backup_dir)) (\<lambda>_.
          py_bind (on_fs (h5py_File h5_path ModeCreateExcl)) (\<lambda>h.
          py_bind (set_h5_file (Some h)) (\<lambda>_.
          setup_h5_datasets)))))
      else if mode = ''existing'' then
        py_bind (on_fs (h5py_File h5_path ModeAppend)) (\<lambda>h. set_h5_file (Some h))
      else py_raise (RuntimeError (''Unknown value for mode='' @ mode)))"

definition close :: "('v world, unit) py" where
  "close = (\<lambda>(st, fs).
     case h5_file st of
       None \<Rightarrow> (Inr (), (st, fs))
     | Some h \<Rightarrow> if h_open h then (Inr (), (st\<lparr>h5_file := None\<rparr>, fs)) else (Inr (), (st, fs)))"

subsection \<open>Pickling\<close>

text \<open>\<open>__getstate__\<close> drops \<open>_h5_file\<close>; \<open>__setstate__\<close> takes the dictionary and sets
  \<open>_h5_file\<close> to \<open>None\<close>.\<close>

definition DataStore_getstate :: "DataStore \<Rightarrow> store_state" where
  "DataStore_getstate st =
     \<lparr>st_n_atoms = n_atoms st, st_n_springs = n_springs st,
      st_n_replicas = n_replicas st, st_backup_freq = backup_freq st\<rparr>"

definition DataStore_setstate :: "store_state \<Rightarrow> DataStore" where
  "DataStore_setstate s =
     \<lparr>n_atoms = st_n_atoms s, n_springs = st_n_springs s, n_replicas = st_n_replicas s,
      backup_freq = st_backup_freq s, h5_file = None\<rparr>"

section \<open>\<open>MPICommunicator\<close>\<close>

text \<open>
  The MPI communicator object is external: it is modelled by the results of its methods.
  \<open>'p\<close> is the type of the Python objects sent and received; \<open>None\<close> is Python's \<open>None\<close>.
\<close>

record 'p mpi_handle =
  Get_rank :: int
  scatter :: "'p option \<Rightarrow> 'p option"
  gather :: "'p option \<Rightarrow> 'p option"
  bcast :: "'p option \<Rightarrow> 'p option"

record 'p MPICommunicator =
  comm_n_atoms :: nat
  comm_n_replicas :: nat
  comm_n_springs :: nat
  mpi_comm :: "'p mpi_handle option"
  my_rank :: "int option"

definition MPICommunicator_init :: "nat \<Rightarrow> nat \<Rightarrow> nat \<Rightarrow> 'p MPICommunicator" where
  "MPICommunicator_init a r s =
     \<lparr>comm_n_atoms = a, comm_n_replicas = r, comm_n_springs = s,
      mpi_comm = None, my_rank = None\<rparr>"

definition MPICommunicator_getstate :: "'p MPICommunicator \<Rightarrow> comm_state" where
  "MPICommunicator_getstate c =
     \<lparr>cs_n_atoms = comm_n_atoms c, cs_n_replicas = comm_n_replicas c,
      cs_n_springs = comm_n_springs c, cs_my_rank = my_rank c\<rparr>"

definition MPICommunicator_setstate :: "comm_state \<Rightarrow> 'p MPICommunicator" where
  "MPICommunicator_setstate s =
     \<lparr>comm_n_atoms = cs_n_atoms s, comm_n_replicas = cs_n_replicas s,
      comm_n_springs = cs_n_springs s, mpi_comm = None, my_rank = cs_my_rank s\<rparr>"

text \<open>\<open>initialize\<close>, given the \<open>COMM_WORLD\<close> that \<open>get_mpi_comm_world\<close> returns.\<close>

definition MPICommunicator_initialize ::
  "'p mpi_handle \<Rightarrow> 'p MPICommunicator \<Rightarrow> 'p MPICommunicator" where
  "MPICommunicator_initialize comm_world c =
     c\<lparr>mpi_comm := Some comm_world, my_rank := Some (Get_rank comm_world)\<rparr>"

text \<open>Reading \<open>self._my_rank\<close>: the attribute does not exist before \<open>initialize\<close>.\<close>

definition rank :: "'p MPICommunicator \<Rightarrow> py_error + int" where
  "rank c = (case my_rank c of None \<Rightarrow> Inl AttributeError | Some r \<Rightarrow> Inr r)"

definition is_master :: "'p MPICommunicator \<Rightarrow> py_error + bool" where
  "is_master c = (case my_rank c of None \<Rightarrow> Inl AttributeError | Some r \<Rightarrow> Inr (r = 0))"

text \<open>Calling a method of \<open>self._mpi_comm\<close>: an attribute access on \<open>None\<close> before
  \<open>initialize\<close>.\<close>

definition mpi_call ::
  "'p MPICommunicator \<Rightarrow> ('p mpi_handle \<Rightarrow> 'p option \<Rightarrow> 'p option) \<Rightarrow> 'p option
     \<Rightarrow> py_error + 'p option" where
  "mpi_call c method arg =
     (case mpi_comm c of None \<Rightarrow> Inl AttributeError | Some m \<Rightarrow> Inr (method m arg))"

definition sum_bind :: "'e + 'a \<Rightarrow> ('a \<Rightarrow> 'e + 'b) \<Rightarrow> 'e + 'b" where
  "sum_bind r f = (case r of Inl e \<Rightarrow> Inl e | Inr x \<Rightarrow> f x)"

definition broadcast_lambdas_to_slaves :: "'p MPICommunicator \<Rightarrow> 'p \<Rightarrow> py_error + unit" where
  "broadcast_lambdas_to_slaves c lambdas =
     sum_bind (mpi_call c scatter (Some lambdas)) (\<lambda>_. Inr ())"

definition recieve_lambda_from_master :: "'p MPICommunicator \<Rightarrow> py_error + 'p option" where
  "recieve_lambda_from_master c = mpi_call c scatter None"

definition broadcast_states_to_slaves ::
  "'p MPICommunicator \<Rightarrow> 'p \<Rightarrow> py_error + 'p option" where
  "broadcast_states_to_slaves c states = mpi_call c scatter (Some states)"

definition recieve_state_from_master :: "'p MPICommunicator \<Rightarrow> py_error + 'p option" where
  "recieve_state_from_master c = mpi_call c scatter None"

definition gather_states_from_slaves ::
  "'p MPICommunicator \<Rightarrow> 'p \<Rightarrow> py_error + 'p option" where
  "gather_states_from_slaves c state_on_master = mpi_call c gather (Some state_on_master)"

definition send_state_to_master :: "'p MPICommunicator \<Rightarrow> 'p \<Rightarrow> py_error + unit" where
  "send_state_to_master c state = sum_bind (mpi_call c gather (Some state)) (\<lambda>_. Inr ())"

definition broadcast_states_for_energy_calc_to_slaves ::
  "'p MPICommunicator \<Rightarrow> 'p \<Rightarrow> py_error + unit" where
  "broadcast_states_for_energy_calc_to_slaves c states =
     sum_bind (mpi_call c bcast (Some states)) (\<lambda>_. Inr ())"

definition recieve_states_for_energy_calc_from_master ::
  "'p MPICommunicator \<Rightarrow> py_error + 'p option" where
  "recieve_states_for_energy_calc_from_master c = mpi_call c bcast None"

text \<open>\<open>np.array(energies)\<close> of the gathered object is the parameter \<open>np_array\<close>.\<close>

definition gather_energies_from_slaves ::
  "('p option \<Rightarrow> 'p option) \<Rightarrow> 'p MPICommunicator \<Rightarrow> 'p \<Rightarrow> py_error + 'p option" where
  "gather_energies_from_slaves np_array c energies_on_master =
     sum_bind (mpi_call c gather (Some energies_on_master)) (\<lambda>energies. Inr (np_array energies))"

definition send_energies_to_master :: "'p MPICommunicator \<Rightarrow> 'p \<Rightarrow> py_error + 'p option" where
  "send_energies_to_master c energies = mpi_call c gather (Some energies)"

section \<open>Pickle files\<close>

datatype 'p pyobj =
    ObjDataStore DataStore
  | ObjCommunicator "'p MPICommunicator"
  | ObjRunner string

text \<open>\<open>pickle.load\<close> rebuilds the object of the pickled class through its
  \<open>__setstate__\<close>.\<close>

definition pickle_load :: "pickled \<Rightarrow> 'p pyobj" where
  "pickle_load x =
     (case x of
        PickledStore s \<Rightarrow> ObjDataStore (DataStore_setstate s)
      | PickledComm s \<Rightarrow> ObjCommunicator (MPICommunicator_setstate s)
      | PickledRunner b \<Rightarrow> ObjRunner b)"

text \<open>\<open>with open(path, 'w') as f: pickle.dump(obj, f)\<close>, given the pickle of the object.\<close>

definition write_pickle :: "string \<Rightarrow> pickled \<Rightarrow> ('v filesystem, unit) py" where
  "write_pickle p x = (\<lambda>fs.
     if fs p = Some Dir \<or> \<not> parent_ok fs p then (Inl IOError, fs)
     else (Inr (), fs(p \<mapsto> PickleFile x)))"

text \<open>\<open>with open(path) as f: return pickle.load(f)\<close>.\<close>

definition read_pickle :: "string \<Rightarrow> ('v filesystem, 'p pyobj) py" where
  "read_pickle p = (\<lambda>fs.
     case fs p of
       Some (PickleFile x) \<Rightarrow> (Inr (pickle_load x), fs)
     | Some (H5File f) \<Rightarrow> (Inl ValueError, fs)
     | _ \<Rightarrow> (Inl IOError, fs))"

definition save_data_store :: "('v world, unit) py" where
  "save_data_store = (\<lambda>(st, fs).
     on_fs (write_pickle data_store_path (PickledStore (DataStore_getstate st))) (st, fs))"

definition load_data_store :: "('v filesystem, 'p pyobj) py" where
  "load_data_store = read_pickle data_store_path"

definition save_communicator :: "'p MPICommunicator \<Rightarrow> ('v world, unit) py" where
  "save_communicator comm =
     on_fs (write_pickle communicator_path (PickledComm (MPICommunicator_getstate comm)))"

definition load_communicator :: "('v world, 'p pyobj) py" where
  "load_communicator = on_fs (read_pickle communicator_path)"

text \<open>The runner is given by its pickle.\<close>

definition save_remd_runner :: "string \<Rightarrow> ('v world, unit) py" where
  "save_remd_runner runner = on_fs (write_pickle remd_runner_path (PickledRunner runner))"

definition load_remd_runner :: "('v world, 'p pyobj) py" where
  "load_remd_runner = on_fs (read_pickle remd_runner_path)"

section \<open>Saving and loading slices\<close>

text \<open>\<open>self._h5_file[name]\<close>: subscripting \<open>None\<close> is a \<open>TypeError\<close>, a missing dataset a
  \<open>KeyError\<close>.\<close>

definition h5_dataset :: "string \<Rightarrow> ('v world, 'v dataset) py" where
  "h5_dataset name = (\<lambda>(st, fs).
     case h5_file st of
       None \<Rightarrow> (Inl TypeError, (st, fs))
     | Some h \<Rightarrow>
         (case handle_file h fs of
            Inl e \<Rightarrow> (Inl e, (st, fs))
          | Inr f \<Rightarrow>
              (case f name of None \<Rightarrow> (Inl KeyError, (st, fs)) | Some d \<Rightarrow> (Inr d, (st, fs)))))"

text \<open>Storing the written dataset back into the container the handle is open on.\<close>

definition h5_store :: "string \<Rightarrow> 'v dataset \<Rightarrow> ('v world, unit) py" where
  "h5_store name d = (\<lambda>(st, fs).
     case h5_file st of
       None \<Rightarrow> (Inl TypeError, (st, fs))
     | Some h \<Rightarrow>
         (case handle_file h fs of
            Inl e \<Rightarrow> (Inl e, (st, fs))
          | Inr f \<Rightarrow> (Inr (), (st, fs(h_path h \<mapsto> H5File (f(name \<mapsto> d)))))))"

text \<open>\<open>self._h5_file[name][..., stage] = value\<close> and \<open>self._h5_file[name][..., stage]\<close>.\<close>

definition h5_setslice ::
  "'v h5py \<Rightarrow> string \<Rightarrow> 'v ndarray \<Rightarrow> int \<Rightarrow> ('v world, unit) py" where
  "h5_setslice lib name v stage =
     py_bind (h5_dataset name) (\<lambda>d.
     py_bind (py_lift (dataset_setitem lib d stage v)) (\<lambda>d'.
     h5_store name d'))"

definition h5_getslice :: "string \<Rightarrow> int \<Rightarrow> ('v world, 'v ndarray) py" where
  "h5_getslice name stage =
     py_bind (h5_dataset name) (\<lambda>d. py_lift (dataset_getitem d stage))"

definition save_positions :: "'v h5py \<Rightarrow> 'v ndarray \<Rightarrow> int \<Rightarrow> ('v world, unit) py" where
  "save_positions lib positions stage = h5_setslice lib ''positions'' positions stage"

definition load_positions :: "int \<Rightarrow> ('v world, 'v ndarray) py" where
  "load_positions stage = h5_getslice ''positions'' stage"

definition save_velocities :: "'v h5py \<Rightarrow> 'v ndarray \<Rightarrow> int \<Rightarrow> ('v world, unit) py" where
  "save_velocities lib velocities stage = h5_setslice lib ''velocities'' velocities stage"

definition load_velocities :: "int \<Rightarrow> ('v world, 'v ndarray) py" where
  "load_velocities stage = h5_getslice ''velocities'' stage"

definition save_spring_states :: "'v h5py \<Rightarrow> 'v ndarray \<Rightarrow> int \<Rightarrow> ('v world, unit) py" where
  "save_spring_states lib spring_states stage = h5_setslice lib ''spring_states'' spring_states stage"

definition load_spring_states :: "int \<Rightarrow> ('v world, 'v ndarray) py" where
  "load_spring_states stage = h5_getslice ''spring_states'' stage"

definition save_spring_energies :: "'v h5py \<Rightarrow> 'v ndarray \<Rightarrow> int \<Rightarrow> ('v world, unit) py" where
  "save_spring_energies lib spring_energies stage = h5_setslice lib ''spring_energies'' spring_energies stage"

definition load_spring_energies :: "int \<Rightarrow> ('v world, 'v ndarray) py" where
  "load_spring_energies stage = h5_getslice ''spring_energies'' stage"

definition save_lambdas :: "'v h5py \<Rightarrow> 'v ndarray \<Rightarrow> int \<Rightarrow> ('v world, unit) py" where
  "save_lambdas lib lambdas stage = h5_setslice lib ''lambdas'' lambdas stage"

definition load_lambdas :: "int \<Rightarrow> ('v world, 'v ndarray) py" where
  "load_lambdas stage = h5_getslice ''lambdas'' stage"

definition save_energies :: "'v h5py \<Rightarrow> 'v ndarray \<Rightarrow> int \<Rightarrow> ('v world, unit) py" where
  "save_energies lib energies stage = h5_setslice lib ''energies'' energies stage"

definition load_energies :: "int \<Rightarrow> ('v world, 'v ndarray) py" where
  "load_energies stage = h5_getslice ''energies'' stage"

section \<open>Composite states\<close>

text \<open>
  Modelled from the spec: the class \<open>SystemState\<close> of \<open>meld.system.state\<close>, which the
  store imports. It has the six fields of a replica state, and its constructor takes
  them in the order the store and its tests pass them: positions, velocities, spring
  states, lambda, energy, spring energies.
\<close>

record 'v SystemState =
  positions :: "'v ndarray"
  velocities :: "'v ndarray"
  spring_states :: "'v ndarray"
  lam :: 'v
  energy :: 'v
  spring_energies :: "'v ndarray"

definition SystemState_init ::
  "'v ndarray \<Rightarrow> 'v ndarray \<Rightarrow> 'v ndarray \<Rightarrow> 'v \<Rightarrow> 'v \<Rightarrow> 'v ndarray \<Rightarrow> 'v SystemState" where
  "SystemState_init pos vel ss l e se =
     \<lparr>positions = pos, velocities = vel, spring_states = ss, lam = l, energy = e,
      spring_energies = se\<rparr>"

text \<open>
  \<open>np.array([...])\<close> of a list of arrays stacks them along a new leading axis; an empty
  list gives an array of shape \<open>(0,)\<close>. Arrays of differing shapes do not stack to a
  numeric array, which is modelled as an error.
\<close>

definition np_array_stack :: "'v ndarray list \<Rightarrow> py_error + 'v ndarray" where
  "np_array_stack xs =
     (case xs of
        [] \<Rightarrow> Inr \<lparr>shape = [0], flat = []\<rparr>
      | x # _ \<Rightarrow>
          if list_all (\<lambda>y. shape y = shape x) xs
          then Inr \<lparr>shape = length xs # shape x, flat = concat (map flat xs)\<rparr>
          else Inl ValueError)"

text \<open>\<open>np.array([...])\<close> of a list of scalars.\<close>

definition np_array_scalars :: "'v list \<Rightarrow> 'v ndarray" where
  "np_array_scalars xs = \<lparr>shape = [length xs], flat = xs\<rparr>"

text \<open>\<open>a[i]\<close> for \<open>i\<close> from \<open>range\<close>: the sub-array at index \<open>i\<close> of the leading axis.\<close>

definition ndarray_getitem :: "'v ndarray \<Rightarrow> nat \<Rightarrow> py_error + 'v ndarray" where
  "ndarray_getitem a i =
     (case shape a of
        [] \<Rightarrow> Inl IndexError
      | n # rest \<Rightarrow>
          if i < n
          then Inr \<lparr>shape = rest,
                    flat = take (prod_list rest) (drop (i * prod_list rest) (flat a))\<rparr>
          else Inl IndexError)"

text \<open>\<open>a[i]\<close> of a one-dimensional array is a scalar. The record \<open>SystemState\<close> types
  lambda and energy as scalars, so an array of another rank is an error here.\<close>

definition ndarray_item :: "'v ndarray \<Rightarrow> nat \<Rightarrow> py_error + 'v" where
  "ndarray_item a i =
     (case shape a of
        [n] \<Rightarrow> if i < n \<and> i < length (flat a) then Inr (flat a ! i) else Inl IndexError
      | _ \<Rightarrow> Inl TypeError)"

definition save_states ::
  "'v h5py \<Rightarrow> 'v SystemState list \<Rightarrow> int \<Rightarrow> ('v world, unit) py" where
  "save_states lib states stage =
     py_bind (py_lift (np_array_stack (map positions states))) (\<lambda>positions'.
     py_bind (py_lift (np_array_stack (map velocities states))) (\<lambda>velocities'.
     py_bind (py_lift (np_array_stack (map spring_states states))) (\<lambda>spring_states'.
     py_bind (py_lift (np_array_stack (map spring_energies states))) (\<lambda>spring_energies'.
     py_bind (py_return (np_array_scalars (map lam states))) (\<lambda>lambdas'.
     py_bind (py_return (np_array_scalars (map energy states))) (\<lambda>energies'.
     py_bind (save_positions lib positions' stage) (\<lambda>_.
     py_bind (save_velocities lib velocities' stage) (\<lambda>_.
     py_bind (save_spring_states lib spring_states' stage) (\<lambda>_.
     py_bind (save_spring_energies lib spring_energies' stage) (\<lambda>_.
     py_bind (save_lambdas lib lambdas' stage) (\<lambda>_.
     save_energies lib energies' stage)))))))))))"

text \<open>The loop of \<open>load_states\<close> over \<open>range(self._n_replicas)\<close>.\<close>

fun load_states_loop ::
  "'v ndarray \<Rightarrow> 'v ndarray \<Rightarrow> 'v ndarray \<Rightarrow> 'v ndarray \<Rightarrow> 'v ndarray \<Rightarrow> 'v ndarray \<Rightarrow>
   nat list \<Rightarrow> py_error + 'v SystemState list" where
  "load_states_loop P V SS SE L E [] = Inr []"
| "load_states_loop P V SS SE L E (i # is) =
     sum_bind (ndarray_getitem P i) (\<lambda>p.
     sum_bind (ndarray_getitem V i) (\<lambda>v.
     sum_bind (ndarray_getitem SS i) (\<lambda>ss.
     sum_bind (ndarray_item L i) (\<lambda>l.
     sum_bind (ndarray_item E i) (\<lambda>e.
     sum_bind (ndarray_getitem SE i) (\<lambda>se.
     sum_bind (load_states_loop P V SS SE L E is) (\<lambda>rest.
     Inr (SystemState_init p v ss l e se # rest))))))))"

definition load_states :: "int \<Rightarrow> ('v world, 'v SystemState list) py" where
  "load_states stage =
     py_bind (load_positions stage) (\<lambda>positions'.
     py_bind (load_velocities stage) (\<lambda>velocities'.
     py_bind (load_spring_states stage) (\<lambda>spring_states'.
     py_bind (load_spring_energies stage) (\<lambda>spring_energies'.
     py_bind (load_lambdas stage) (\<lambda>lambdas'.
     py_bind (load_energies stage) (\<lambda>energies'.
     (\<lambda>(st, fs).
        (load_states_loop positions' velocities' spring_states' spring_energies'
           lambdas' energies' [0..<n_replicas st], (st, fs)))))))))"

section \<open>Backup\<close>

definition make_backup_path :: "string \<Rightarrow> string" where
  "make_backup_path path = os_path_join backup_dir (snd (os_path_split path))"

text \<open>The private method \<open>_backup\<close>.\<close>

definition private_backup :: "string \<Rightarrow> ('v world, unit) py" where
  "private_backup path =
     py_bind (on_fs (os_path_exists path)) (\<lambda>ex.
     if ex then on_fs (shutil_copy path (make_backup_path path)) else py_return ())"

text \<open>Python's \<open>%\<close> on integers: the sign follows the divisor, as HOL's \<open>mod\<close> does, and a
  zero divisor raises.\<close>

definition python_mod :: "int \<Rightarrow> int \<Rightarrow> py_error + int" where
  "python_mod a b = (if b = 0 then Inl ZeroDivisionError else Inr (a mod b))"

text \<open>\<open>self._h5_file.close()\<close>: the handle stays in the field, closed.\<close>

definition h5_file_close :: "('v world, unit) py" where
  "h5_file_close = (\<lambda>(st, fs).
     case h5_file st of
       None \<Rightarrow> (Inl AttributeError, (st, fs))
     | Some h \<Rightarrow> (Inr (), (st\<lparr>h5_file := Some (h\<lparr>h_open := False\<rparr>)\<rparr>, fs)))"

definition backup :: "int \<Rightarrow> ('v world, unit) py" where
  "backup stage = (\<lambda>(st, fs).
     py_bind (py_lift (python_mod stage (backup_freq st))) (\<lambda>m.
     if m = 0 then
       py_bind (private_backup communicator_path) (\<lambda>_.
       py_bind (private_backup data_store_path) (\<lambda>_.
       py_bind (private_backup remd_runner_path) (\<lambda>_.
       py_bind h5_file_close (\<lambda>_.
       py_bind (private_backup h5_path) (\<lambda>_.
       py_bind (on_fs (h5py_File h5_path ModeAppend)) (\<lambda>h.
       set_h5_file (Some h)))))))
     else py_return ()) (st, fs))"

section \<open>The six quantities, uniformly\<close>

datatype quantity = Positions | Velocities | SpringStates | SpringEnergies | Lambdas | Energies

fun series_name :: "quantity \<Rightarrow> string" where
  "series_name Positions = ''positions''"
| "series_name Velocities = ''velocities''"
| "series_name SpringStates = ''spring_states''"
| "series_name SpringEnergies = ''spring_energies''"
| "series_name Lambdas = ''lambdas''"
| "series_name Energies = ''energies''"

fun save_quantity ::
  "'v h5py \<Rightarrow> quantity \<Rightarrow> 'v ndarray \<Rightarrow> int \<Rightarrow> ('v world, unit) py" where
  "save_quantity lib Positions = save_positions lib"
| "save_quantity lib Velocities = save_velocities lib"
| "save_quantity lib SpringStates = save_spring_states lib"
| "save_quantity lib SpringEnergies = save_spring_energies lib"
| "save_quantity lib Lambdas = save_lambdas lib"
| "save_quantity lib Energies = save_energies lib"

fun load_quantity :: "quantity \<Rightarrow> int \<Rightarrow> ('v world, 'v ndarray) py" where
  "load_quantity Positions = load_positions"
| "load_quantity Velocities = load_velocities"
| "load_quantity SpringStates = load_spring_states"
| "load_quantity SpringEnergies = load_spring_energies"
| "load_quantity Lambdas = load_lambdas"
| "load_quantity Energies = load_energies"

text \<open>The shape of one stage of a quantity, from the store's construction parameters.\<close>

fun slice_shape :: "DataStore \<Rightarrow> quantity \<Rightarrow> nat list" where
  "slice_shape st Positions = [n_replicas st, n_atoms st, 3]"
| "slice_shape st Velocities = [n_replicas st, n_atoms st, 3]"
| "slice_shape st SpringStates = [n_replicas st, n_springs st]"
| "slice_shape st SpringEnergies = [n_replicas st, n_springs st]"
| "slice_shape st Lambdas = [n_replicas st]"
| "slice_shape st Energies = [n_replicas st]"

definition quantities :: "quantity list" where
  "quantities = [Positions, Velocities, SpringStates, SpringEnergies, Lambdas, Energies]"

text \<open>A series with leading axes \<open>outer\<close> and \<open>n\<close> stages, its data consistent with its
  shape.\<close>

definition dataset_ok :: "'v dataset \<Rightarrow> nat list \<Rightarrow> nat \<Rightarrow> bool" where
  "dataset_ok d outer n =
     (dshape d = outer @ [n] \<and> length (rows d) = prod_list outer \<and>
      list_all (\<lambda>r. length r = n) (rows d))"

definition series_ok :: "'v h5file \<Rightarrow> string \<Rightarrow> nat list \<Rightarrow> nat \<Rightarrow> bool" where
  "series_ok f name outer n =
     (case f name of None \<Rightarrow> False | Some d \<Rightarrow> dataset_ok d outer n)"

definition container_ok :: "DataStore \<Rightarrow> 'v h5file \<Rightarrow> nat \<Rightarrow> bool" where
  "container_ok st f n = list_all (\<lambda>q. series_ok f (series_name q) (slice_shape st q) n) quantities"

text \<open>The store is open on its container, which holds the six series with the store's
  dimensions and \<open>n\<close> stages.\<close>

definition store_ready :: "nat \<Rightarrow> 'v world \<Rightarrow> bool" where
  "store_ready n w =
     (case h5_file (fst w) of
        None \<Rightarrow> False
      | Some h \<Rightarrow>
          h_open h \<and> h_path h = h5_path \<and>
          (case snd w h5_path of
             Some (H5File f) \<Rightarrow> container_ok (fst w) f n
           | _ \<Rightarrow> False))"

text \<open>The stage-axis length of each of the six series of the container file.\<close>

definition stage_axis_length :: "'v filesystem \<Rightarrow> quantity \<Rightarrow> nat option" where
  "stage_axis_length fs q =
     (case fs h5_path of
        Some (H5File f) \<Rightarrow>
          (case f (series_name q) of
             None \<Rightarrow> None
           | Some d \<Rightarrow> if dshape d = [] then None else Some (last (dshape d)))
      | _ \<Rightarrow> None)"

definition stage_axis_lengths :: "'v filesystem \<Rightarrow> nat option list" where
  "stage_axis_lengths fs = map (stage_axis_length fs) quantities"

text \<open>An array of a given shape.\<close>

definition has_shape :: "nat list \<Rightarrow> 'v ndarray \<Rightarrow> bool" where
  "has_shape shp a = (shape a = shp \<and> length (flat a) = prod_list shp)"

text \<open>A replica state of \<open>A\<close> atoms and \<open>S\<close> springs.\<close>

definition state_ok :: "nat \<Rightarrow> nat \<Rightarrow> 'v SystemState \<Rightarrow> bool" where
  "state_ok A S s =
     (has_shape [A, 3] (positions s) \<and> has_shape [A, 3] (velocities s) \<and>
      has_shape [S] (spring_states s) \<and> has_shape [S] (spring_energies s))"

text \<open>An array and a replica state as they are stored: every element converted to the
  element type of the series.\<close>

definition array_astype :: "'v h5py \<Rightarrow> 'v ndarray \<Rightarrow> 'v ndarray" where
  "array_astype lib a = \<lparr>shape = shape a, flat = map (to_float lib) (flat a)\<rparr>"

definition state_astype :: "'v h5py \<Rightarrow> 'v SystemState \<Rightarrow> 'v SystemState" where
  "state_astype lib s =
     \<lparr>positions = array_astype lib (positions s), velocities = array_astype lib (velocities s),
      spring_states = array_astype lib (spring_states s), lam = to_float lib (lam s),
      energy = to_float lib (energy s), spring_energies = array_astype lib (spring_energies s)\<rparr>"

text \<open>An array and a replica state of float64 values: the conversion changes no
  element.\<close>

definition array_is_float :: "'v h5py \<Rightarrow> 'v ndarray \<Rightarrow> bool" where
  "array_is_float lib a = list_all (\<lambda>x. to_float lib x = x) (flat a)"

definition state_is_float :: "'v h5py \<Rightarrow> 'v SystemState \<Rightarrow> bool" where
  "state_is_float lib s =
     (array_is_float lib (positions s) \<and> array_is_float lib (velocities s) \<and>
      array_is_float lib (spring_states s) \<and> array_is_float lib (spring_energies s) \<and>
      to_float lib (lam s) = lam s \<and> to_float lib (energy s) = energy s)"

text \<open>A sequence of save calls; a call that raises leaves the state it reached, and the
  caller goes on.\<close>

datatype 'v save_call =
    SaveQuantity quantity "'v ndarray" int
  | SaveStates "'v SystemState list" int

fun run_save :: "'v h5py \<Rightarrow> 'v save_call \<Rightarrow> 'v world \<Rightarrow> 'v world" where
  "run_save lib (SaveQuantity q v stage) w = snd (save_quantity lib q v stage w)"
| "run_save lib (SaveStates states stage) w = snd (save_states lib states stage w)"

definition run_saves :: "'v h5py \<Rightarrow> 'v save_call list \<Rightarrow> 'v world \<Rightarrow> 'v world" where
  "run_saves lib calls w = fold (run_save lib) calls w"

section \<open>Auxiliary notions for the proofs\<close>

text \<open>The dataset that \<open>create_dataset\<close> makes for leading axes \<open>outer\<close> and one stage.\<close>

definition fresh_dataset :: "nat list \<Rightarrow> nat option list \<Rightarrow> 'v::zero dataset" where
  "fresh_dataset outer mx =
     \<lparr>dshape = outer @ [1], maxshape = mx, rows = replicate (prod_list outer) [0]\<rparr>"

text \<open>The files a backup copies, in the order \<open>backup\<close> copies them.\<close>

definition backup_sources :: "string list" where
  "backup_sources = [communicator_path, data_store_path, remd_runner_path, h5_path]"

text \<open>
  The situation \<open>backup\<close> is written for: the store holds a container handle, the backup
  frequency is not zero, the backup directory exists, the container file exists, and
  none of the four paths or of their backup copies is a directory. Any of the three
  sidecar files may be absent.
\<close>

definition backup_ready :: "'v world \<Rightarrow> bool" where
  "backup_ready w =
     (h5_file (fst w) \<noteq> None \<and> backup_freq (fst w) \<noteq> 0 \<and> snd w backup_dir = Some Dir \<and>
      list_all (\<lambda>p. snd w p \<noteq> Some Dir \<and> snd w (make_backup_path p) \<noteq> Some Dir) backup_sources \<and>
      (case snd w h5_path of Some (H5File f) \<Rightarrow> True | _ \<Rightarrow> False))"

text \<open>The file system after \<open>_backup(p)\<close> has run without error.\<close>

definition copy_into :: "'v filesystem \<Rightarrow> string \<Rightarrow> 'v filesystem" where
  "copy_into fs p = (if fs p = None then fs else fs(make_backup_path p := fs p))"

subsection \<open>Concrete stores\<close>

text \<open>A store of one atom, one spring and two replicas, created by \<open>initialize('new')\<close> in
  an empty working directory.\<close>

definition example_store :: "int world" where
  "example_store = snd (initialize ''new'' (DataStore_init 1 1 2 100, \<lambda>_. None))"

definition example_handle :: h5handle where
  "example_handle = \<lparr>h_path = h5_path, h_mode = ModeCreateExcl, h_open = True\<rparr>"

text \<open>
  For integer elements the conversion to float64 is the rounding of the integer to 53
  significant bits, to the nearest and on a tie to the even one (for magnitudes in the
  range of float64). \<open>excess_bits a\<close> is the number of low bits that do not fit.
\<close>

function excess_bits :: "nat \<Rightarrow> nat" where
  "excess_bits a = (if a < 2 ^ 53 then 0 else Suc (excess_bits (a div 2)))"
  by pat_completeness auto
termination
  by (relation "measure (\<lambda>a. a)") auto

declare excess_bits.simps [simp del]

definition float64_of_int :: "int \<Rightarrow> int" where
  "float64_of_int x =
     (let a = nat (abs x); e = excess_bits a; m = a div 2 ^ e; r = a mod 2 ^ e;
          m' = (if 2 ^ e < 2 * r \<or> (2 * r = 2 ^ e \<and> odd m) then m + 1 else m)
      in sgn x * int (m' * 2 ^ e))"

text \<open>An h5py for integer elements. Of broadcasting it has only the case of a one-element
  value; the examples below write values of the shape of the slice and never reach it.\<close>

definition example_h5py :: "int h5py" where
  "example_h5py =
     \<lparr>to_float = float64_of_int,
      broadcast_to = (\<lambda>shp v. if length (flat v) = 1 then Inr (\<lambda>_. hd (flat v)) else Inl TypeError)\<rparr>"

definition example_lambdas :: "int ndarray" where
  "example_lambdas = \<lparr>shape = [2], flat = [0, 1]\<rparr>"

text \<open>Energies of two replicas; the first, \<open>2^53 + 1\<close>, is not a float64 value.\<close>

definition example_big_energies :: "int ndarray" where
  "example_big_energies = \<lparr>shape = [2], flat = [9007199254740993, 5]\<rparr>"

definition example_states :: "int SystemState list" where
  "example_states =
     [SystemState_init \<lparr>shape = [1, 3], flat = [1, 2, 3]\<rparr> \<lparr>shape = [1, 3], flat = [4, 5, 6]\<rparr>
        \<lparr>shape = [1], flat = [1]\<rparr> 0 9 \<lparr>shape = [1], flat = [10]\<rparr>,
      SystemState_init \<lparr>shape = [1, 3], flat = [11, 12, 13]\<rparr> \<lparr>shape = [1, 3], flat = [14, 15, 16]\<rparr>
        \<lparr>shape = [1], flat = [0]\<rparr> 1 19 \<lparr>shape = [1], flat = [20]\<rparr>]"

text \<open>The same two states, the first with the energy \<open>2^53 + 1\<close>.\<close>

definition example_big_states :: "int SystemState list" where
  "example_big_states =
     [SystemState_init \<lparr>shape = [1, 3], flat = [1, 2, 3]\<rparr> \<lparr>shape = [1, 3], flat = [4, 5, 6]\<rparr>
        \<lparr>shape = [1], flat = [1]\<rparr> 0 9007199254740993 \<lparr>shape = [1], flat = [10]\<rparr>,
      SystemState_init \<lparr>shape = [1, 3], flat = [11, 12, 13]\<rparr> \<lparr>shape = [1, 3], flat = [14, 15, 16]\<rparr>
        \<lparr>shape = [1], flat = [0]\<rparr> 1 19 \<lparr>shape = [1], flat = [20]\<rparr>]"

text \<open>A store with a live handle, whose own pickle is on disk and whose other two sidecar
  files are absent; and a communicator with a live MPI handle.\<close>

definition example_live_store :: "int world" where
  "example_live_store =
     ((DataStore_init 500 100 4 100)\<lparr>h5_file := Some \<lparr>h_path = h5_path, h_mode = ModeAppend, h_open = True\<rparr>\<rparr>,
      [''Data'' \<mapsto> Dir, ''Data/Backup'' \<mapsto> Dir, ''Data/results.h5'' \<mapsto> H5File (\<lambda>_. None),
       ''Data/data_store.dat'' \<mapsto> PickleFile (PickledStore (DataStore_getstate (DataStore_init 500 100 4 100)))])"

definition example_comm :: "int MPICommunicator" where
  "example_comm =
     MPICommunicator_initialize \<lparr>Get_rank = 0, scatter = id, gather = id, bcast = id\<rparr>
       (MPICommunicator_init 500 4 100)"

section \<open>Paths of the store\<close>

lemma path_values:
  "backup_dir = ''Data/Backup''"
  "data_store_path = ''Data/data_store.dat''"
  "communicator_path = ''Data/communicator.dat''"
  "remd_runner_path = ''Data/remd_runner.dat''"
  "h5_path = ''Data/results.h5''"
  by (simp_all add: backup_dir_def data_store_path_def communicator_path_def
      remd_runner_path_def h5_path_def data_dir_def os_path_join_def)

section \<open>Indices and slices\<close>

lemma translate_int_in_range:
  "- int n \<le> s \<Longrightarrow> s < int n \<Longrightarrow> \<exists>i. translate_int s n = Inr i \<and> i < n"
  by (auto simp: translate_int_def Let_def)

lemma translate_int_out_of_range:
  "int n \<le> s \<Longrightarrow> translate_int s n = Inl ValueError"
  by (auto simp: translate_int_def Let_def)

lemma translate_int_cases:
  "translate_int s n = Inl ValueError \<or> (\<exists>i. translate_int s n = Inr i \<and> i < n)"
  by (auto simp: translate_int_def Let_def)

lemma map2_update_nth:
  "length rs = length xs \<Longrightarrow> list_all (\<lambda>r. i < length r) rs \<Longrightarrow>
   map (\<lambda>r. r ! i) (map2 (\<lambda>r x. r[i := f x]) rs xs) = map f xs"
  by (induction rs xs rule: list_induct2) auto

lemma map2_update_lengths:
  "length rs = length xs \<Longrightarrow> list_all (\<lambda>r. length r = n) rs \<Longrightarrow>
   list_all (\<lambda>r. length r = n) (map2 (\<lambda>r x. r[i := f x]) rs xs)"
  by (induction rs xs rule: list_induct2) auto

lemma setitem_out_of_range:
  "dataset_ok d outer n \<Longrightarrow> int n \<le> s \<Longrightarrow> dataset_setitem lib d s v = Inl ValueError"
  by (simp add: dataset_ok_def dataset_setitem_def translate_int_out_of_range)

lemma setitem_preserves:
  "dataset_ok d outer n \<Longrightarrow> dataset_setitem lib d s v = Inr d' \<Longrightarrow> dataset_ok d' outer n"
  using translate_int_cases[of s n]
    map2_update_lengths[of "rows d" "flat v" n _ "to_float lib"]
    map2_update_lengths[of "rows d" "[0..<length (rows d)]" n]
  by (auto simp: dataset_ok_def dataset_setitem_def split: if_splits sum.splits)

lemma setitem_getitem:
  assumes "dataset_ok d outer n" "- int n \<le> s" "s < int n"
    and "prod_list outer = 0 \<or> has_shape outer v"
  shows "\<exists>d'. dataset_setitem lib d s v = Inr d' \<and> dataset_ok d' outer n \<and>
     dataset_getitem d' s =
       Inr \<lparr>shape = outer, flat = (if prod_list outer = 0 then [] else map (to_float lib) (flat v))\<rparr>"
proof -
  obtain i where i: "translate_int s n = Inr i" "i < n"
    using translate_int_in_range[OF assms(2,3)] by blast
  show ?thesis
  proof (cases "prod_list outer = 0")
    case True
    with assms(1) i show ?thesis
      by (simp add: dataset_ok_def dataset_setitem_def dataset_getitem_def)
  next
    case False
    with assms(4) have v: "shape v = outer" "length (flat v) = prod_list outer"
      by (simp_all add: has_shape_def)
    from assms(1) have len: "length (rows d) = length (flat v)"
      and rs: "list_all (\<lambda>r. length r = n) (rows d)"
      by (simp_all add: dataset_ok_def v)
    from rs i(2) have "list_all (\<lambda>r. i < length r) (rows d)"
      by (simp add: list_all_iff)
    with len have "map (\<lambda>r. r ! i) (map2 (\<lambda>r x. r[i := to_float lib x]) (rows d) (flat v)) =
        map (to_float lib) (flat v)"
      by (rule map2_update_nth)
    moreover have "list_all (\<lambda>r. length r = n)
        (map2 (\<lambda>r x. r[i := to_float lib x]) (rows d) (flat v))"
      using len rs by (rule map2_update_lengths)
    ultimately show ?thesis
      using assms(1) i False v len
      by (simp add: dataset_ok_def dataset_setitem_def dataset_getitem_def)
  qed
qed

lemma getitem_ok:
  assumes "dataset_ok d outer n" "- int n \<le> s" "s < int n"
  shows "\<exists>x. dataset_getitem d s = Inr x \<and> has_shape outer x"
proof -
  obtain i where i: "translate_int s n = Inr i" "i < n"
    using translate_int_in_range[OF assms(2,3)] by blast
  with assms(1) show ?thesis
    by (simp add: dataset_ok_def dataset_getitem_def has_shape_def)
qed



section \<open>Saving and loading on an open store\<close>

lemma series_names_distinct:
  "(series_name q = series_name q') = (q = q')"
  by (cases q; cases q'; simp)

lemma store_readyE:
  assumes "store_ready n (st, fs)"
  obtains h f where "h5_file st = Some h" "h_open h" "h_path h = h5_path"
    "fs h5_path = Some (H5File f)" "container_ok st f n"
  using assms by (auto simp: store_ready_def split: option.splits node.splits)

lemma container_ok_series:
  "container_ok st f n \<Longrightarrow> \<exists>d. f (series_name q) = Some d \<and> dataset_ok d (slice_shape st q) n"
  by (cases q) (auto simp: container_ok_def quantities_def series_ok_def split: option.splits)

lemma container_ok_upd:
  assumes "container_ok st f n" "dataset_ok d' (slice_shape st q) n"
  shows "container_ok st (f(series_name q \<mapsto> d')) n"
  using assms
  by (cases q) (auto simp: container_ok_def quantities_def series_ok_def split: option.splits)

lemma save_quantity_setslice: "save_quantity lib q v s = h5_setslice lib (series_name q) v s"
  by (cases q) (simp_all add: save_positions_def save_velocities_def save_spring_states_def
      save_spring_energies_def save_lambdas_def save_energies_def fun_eq_iff)

lemma load_quantity_getslice: "load_quantity q s = h5_getslice (series_name q) s"
  by (cases q) (simp_all add: load_positions_def load_velocities_def load_spring_states_def
      load_spring_energies_def load_lambdas_def load_energies_def fun_eq_iff)

lemma h5_dataset_open:
  assumes "h5_file st = Some h" "h_open h" "h_path h = p" "fs p = Some (H5File f)"
  shows "h5_dataset name (st, fs) =
     (case f name of None \<Rightarrow> (Inl KeyError, (st, fs)) | Some d \<Rightarrow> (Inr d, (st, fs)))"
  using assms by (simp add: h5_dataset_def handle_file_def)

lemma h5_setslice_open:
  assumes "h5_file st = Some h" "h_open h" "h_path h = p" "fs p = Some (H5File f)"
    "f name = Some d"
  shows "h5_setslice lib name v s (st, fs) =
     (case dataset_setitem lib d s v of
        Inl e \<Rightarrow> (Inl e, (st, fs))
      | Inr d' \<Rightarrow> (Inr (), (st, fs(p \<mapsto> H5File (f(name \<mapsto> d'))))))"
  using assms
  by (simp add: h5_setslice_def py_bind_def py_lift_def h5_dataset_open h5_store_def
      handle_file_def split: sum.splits)

lemma h5_getslice_open:
  assumes "h5_file st = Some h" "h_open h" "h_path h = p" "fs p = Some (H5File f)"
    "f name = Some d"
  shows "h5_getslice name s (st, fs) = (dataset_getitem d s, (st, fs))"
  using assms
  by (simp add: h5_getslice_def py_bind_def py_lift_def h5_dataset_open split: sum.splits)

text \<open>A save on a ready store: it either raises and changes nothing, or returns and
  leaves a ready store with the same number of stages.\<close>

lemma save_quantity_ready:
  assumes "store_ready n (st, fs)"
  shows "(\<exists>e. save_quantity lib q v s (st, fs) = (Inl e, (st, fs))) \<or>
         (\<exists>fs'. save_quantity lib q v s (st, fs) = (Inr (), (st, fs')) \<and> store_ready n (st, fs'))"
proof -
  from assms(1) obtain h f where hf: "h5_file st = Some h" "h_open h" "h_path h = h5_path"
    "fs h5_path = Some (H5File f)" "container_ok st f n"
    by (rule store_readyE)
  obtain d where d: "f (series_name q) = Some d" "dataset_ok d (slice_shape st q) n"
    using container_ok_series[OF hf(5)] by blast
  have eq: "save_quantity lib q v s (st, fs) =
     (case dataset_setitem lib d s v of
        Inl e \<Rightarrow> (Inl e, (st, fs))
      | Inr d' \<Rightarrow> (Inr (), (st, fs(h5_path \<mapsto> H5File (f(series_name q \<mapsto> d'))))))"
    using h5_setslice_open[where lib=lib and st=st and h=h and p=h5_path and fs=fs and f=f and name="series_name q" and d=d and v=v and s=s] hf(1,2,3,4) d(1) 
    by (simp add: save_quantity_setslice)
  show ?thesis
  proof (cases "dataset_setitem lib d s v")
    case (Inl e)
    with eq show ?thesis by simp
  next
    case (Inr d')
    with d(2) have "dataset_ok d' (slice_shape st q) n" by (rule setitem_preserves[where lib=lib])
    with hf(5) have "container_ok st (f(series_name q \<mapsto> d')) n" by (rule container_ok_upd)
    with hf(1,2,3) have "store_ready n (st, fs(h5_path \<mapsto> H5File (f(series_name q \<mapsto> d'))))"
      by (simp add: store_ready_def)
    with eq Inr show ?thesis by simp
  qed
qed

lemma save_quantity_out_of_range:
  assumes "store_ready n (st, fs)" "int n \<le> s"
  shows "save_quantity lib q v s (st, fs) = (Inl ValueError, (st, fs))"
proof -
  from assms(1) obtain h f where hf: "h5_file st = Some h" "h_open h" "h_path h = h5_path"
    "fs h5_path = Some (H5File f)" "container_ok st f n"
    by (rule store_readyE)
  obtain d where d: "f (series_name q) = Some d" "dataset_ok d (slice_shape st q) n"
    using container_ok_series[OF hf(5)] by blast
  show ?thesis
    using h5_setslice_open[where lib=lib and st=st and h=h and p=h5_path and fs=fs and f=f and name="series_name q" and d=d and v=v and s=s] hf(1,2,3,4) d(1) 
      setitem_out_of_range[OF d(2) assms(2), where v=v and lib=lib]
    by (simp add: save_quantity_setslice)
qed

text \<open>A save of a fitting value at an existing stage, and what the loads return after it.\<close>

lemma save_quantity_ok:
  assumes "store_ready n (st, fs)" "- int n \<le> s" "s < int n"
    and "prod_list (slice_shape st q) = 0 \<or> has_shape (slice_shape st q) v"
  shows "\<exists>fs'. save_quantity lib q v s (st, fs) = (Inr (), (st, fs')) \<and> store_ready n (st, fs') \<and>
     load_quantity q s (st, fs') =
       (Inr \<lparr>shape = slice_shape st q,
             flat = (if prod_list (slice_shape st q) = 0 then []
                     else map (to_float lib) (flat v))\<rparr>, (st, fs')) \<and>
     (\<forall>q' s'. q' \<noteq> q \<longrightarrow>
        fst (load_quantity q' s' (st, fs')) = fst (load_quantity q' s' (st, fs)))"
proof -
  from assms(1) obtain h f where hf: "h5_file st = Some h" "h_open h" "h_path h = h5_path"
    "fs h5_path = Some (H5File f)" "container_ok st f n"
    by (rule store_readyE)
  obtain d where d: "f (series_name q) = Some d" "dataset_ok d (slice_shape st q) n"
    using container_ok_series[OF hf(5)] by blast
  obtain d' where dn: "dataset_setitem lib d s v = Inr d'" "dataset_ok d' (slice_shape st q) n"
    "dataset_getitem d' s = Inr \<lparr>shape = slice_shape st q,
        flat = (if prod_list (slice_shape st q) = 0 then [] else map (to_float lib) (flat v))\<rparr>"
    using setitem_getitem[OF d(2) assms(2,3,4), where lib=lib] by blast
  let ?f' = "f(series_name q \<mapsto> d')"
  let ?fs' = "fs(h5_path \<mapsto> H5File ?f')"
  have save: "save_quantity lib q v s (st, fs) = (Inr (), (st, ?fs'))"
    using h5_setslice_open[where lib=lib and st=st and h=h and p=h5_path and fs=fs and f=f and name="series_name q" and d=d and v=v and s=s] hf(1,2,3,4) d(1) dn(1)
    by (simp add: save_quantity_setslice)
  have ok: "container_ok st ?f' n" using hf(5) dn(2) by (rule container_ok_upd)
  have ready: "store_ready n (st, ?fs')"
    using hf(1,2,3) ok by (simp add: store_ready_def)
  have fl': "?fs' h5_path = Some (H5File ?f')" by simp
  have fd: "?f' (series_name q) = Some d'" by simp
  have load: "load_quantity q s (st, ?fs') = (dataset_getitem d' s, (st, ?fs'))"
    using h5_getslice_open[where st=st and h=h and p=h5_path and fs="?fs'" and f="?f'"
        and name="series_name q" and d=d' and s=s] hf(1,2,3) fl' fd
    by (simp add: load_quantity_getslice)
  have other: "fst (load_quantity q' s' (st, ?fs')) = fst (load_quantity q' s' (st, fs))"
    if "q' \<noteq> q" for q' s'
  proof -
    obtain e where e: "f (series_name q') = Some e"
      using container_ok_series[OF hf(5), of q'] by blast
    have e': "?f' (series_name q') = Some e"
      using e that by (simp add: series_names_distinct)
    show ?thesis
      using h5_getslice_open[where st=st and h=h and p=h5_path and fs="?fs'" and f="?f'" and name="series_name q'" and d=e and s=s'] hf(1,2,3) fl' e'
        h5_getslice_open[where st=st and h=h and p=h5_path and fs=fs and f=f and name="series_name q'" and d=e and s=s'] hf(1,2,3,4) e
      by (simp add: load_quantity_getslice)
  qed
  show ?thesis using save ready load dn(3) other by auto
qed

lemma load_quantity_ok:
  assumes "store_ready n (st, fs)" "- int n \<le> s" "s < int n"
  shows "\<exists>x. load_quantity q s (st, fs) = (Inr x, (st, fs)) \<and> has_shape (slice_shape st q) x"
proof -
  from assms(1) obtain h f where hf: "h5_file st = Some h" "h_open h" "h_path h = h5_path"
    "fs h5_path = Some (H5File f)" "container_ok st f n"
    by (rule store_readyE)
  obtain d where d: "f (series_name q) = Some d" "dataset_ok d (slice_shape st q) n"
    using container_ok_series[OF hf(5)] by blast
  show ?thesis
    using h5_getslice_open[where st=st and h=h and p=h5_path and fs=fs and f=f and name="series_name q" and d=d and s=s] hf(1,2,3,4) d(1) getitem_ok[OF d(2) assms(2,3)]
    by (auto simp: load_quantity_getslice)
qed



section \<open>A new store\<close>

lemma split_values:
  "os_path_split ''Data'' = ('''', ''Data'')"
  "os_path_split ''Data/Backup'' = (''Data'', ''Backup'')"
  "os_path_split ''Data/results.h5'' = (''Data'', ''results.h5'')"
  "os_path_split ''Data/data_store.dat'' = (''Data'', ''data_store.dat'')"
  "os_path_split ''Data/communicator.dat'' = (''Data'', ''communicator.dat'')"
  "os_path_split ''Data/remd_runner.dat'' = (''Data'', ''remd_runner.dat'')"
  "os_path_split ''Data/Backup/results.h5'' = (''Data/Backup'', ''results.h5'')"
  "os_path_split ''Data/Backup/data_store.dat'' = (''Data/Backup'', ''data_store.dat'')"
  "os_path_split ''Data/Backup/communicator.dat'' = (''Data/Backup'', ''communicator.dat'')"
  "os_path_split ''Data/Backup/remd_runner.dat'' = (''Data/Backup'', ''remd_runner.dat'')"
  by (simp_all add: os_path_split_def Let_def)

lemma backup_path_values:
  "make_backup_path ''Data/communicator.dat'' = ''Data/Backup/communicator.dat''"
  "make_backup_path ''Data/data_store.dat'' = ''Data/Backup/data_store.dat''"
  "make_backup_path ''Data/remd_runner.dat'' = ''Data/Backup/remd_runner.dat''"
  "make_backup_path ''Data/results.h5'' = ''Data/Backup/results.h5''"
  by (simp_all add: make_backup_path_def path_values split_values os_path_join_def)

lemma py_bind_Inr: "m s = (Inr x, s') \<Longrightarrow> py_bind m f s = f x s'"
  by (simp add: py_bind_def)

lemma py_bind_Inl: "m s = (Inl e, s') \<Longrightarrow> py_bind m f s = (Inl e, s')"
  by (simp add: py_bind_def)

lemma fresh_dataset_ok: "dataset_ok (fresh_dataset outer mx) outer (Suc 0)"
  by (simp add: fresh_dataset_def dataset_ok_def list_all_iff)

lemma create_dataset_open:
  assumes "h5_file st = Some h" "h_open h" "h_path h = p" "fs p = Some (H5File f)"
    "f name = None"
  shows "create_dataset name (outer @ [1]) mx (st, fs) =
     (Inr (), (st, fs(p \<mapsto> H5File (f(name \<mapsto> fresh_dataset outer mx)))))"
  using assms
  by (simp add: create_dataset_def on_fs_def file_create_dataset_def handle_file_def
      fresh_dataset_def)

lemma setup_h5_datasets_fresh:
  assumes "h5_file st = Some h" "h_open h" "h_path h = p" "fs p = Some (H5File (\<lambda>_. None))"
  shows "\<exists>f. setup_h5_datasets (st, fs) = (Inr (), (st, fs(p \<mapsto> H5File f))) \<and>
     container_ok st f 1"
proof -
  let ?R = "n_replicas st" and ?A = "n_atoms st" and ?S = "n_springs st"
  let ?f1 = "(\<lambda>_. None)(''positions'' \<mapsto> fresh_dataset [?R, ?A, 3] [Some ?R, Some ?A, Some 3, None])"
  let ?f2 = "?f1(''velocities'' \<mapsto> fresh_dataset [?R, ?A, 3] [Some ?R, Some ?A, Some 3, None])"
  let ?f3 = "?f2(''spring_states'' \<mapsto> fresh_dataset [?R, ?S] [Some ?R, Some ?S, None])"
  let ?f4 = "?f3(''spring_energies'' \<mapsto> fresh_dataset [?R, ?S] [Some ?R, Some ?S, None])"
  let ?f5 = "?f4(''lambdas'' \<mapsto> fresh_dataset [?R] [Some ?R, None])"
  let ?f6 = "?f5(''energies'' \<mapsto> fresh_dataset [?R] [Some ?R, None])"
  have s1: "setup_positions (st, fs) = (Inr (), (st, fs(p \<mapsto> H5File ?f1)))"
    using create_dataset_open[where st=st and h=h and p=p and fs=fs and f="\<lambda>_. None"
        and name="''positions''" and outer="[?R, ?A, 3]"] assms
    by (simp add: setup_positions_def)
  have s2: "setup_velocities (st, fs(p \<mapsto> H5File ?f1)) = (Inr (), (st, fs(p \<mapsto> H5File ?f2)))"
    using create_dataset_open[where st=st and h=h and p=p and fs="fs(p \<mapsto> H5File ?f1)"
        and f="?f1" and name="''velocities''" and outer="[?R, ?A, 3]"] assms
    by (simp add: setup_velocities_def)
  have s3: "setup_spring_states (st, fs(p \<mapsto> H5File ?f2)) = (Inr (), (st, fs(p \<mapsto> H5File ?f3)))"
    using create_dataset_open[where st=st and h=h and p=p and fs="fs(p \<mapsto> H5File ?f2)"
        and f="?f2" and name="''spring_states''" and outer="[?R, ?S]"] assms
    by (simp add: setup_spring_states_def)
  have s4: "setup_spring_energies (st, fs(p \<mapsto> H5File ?f3)) = (Inr (), (st, fs(p \<mapsto> H5File ?f4)))"
    using create_dataset_open[where st=st and h=h and p=p and fs="fs(p \<mapsto> H5File ?f3)"
        and f="?f3" and name="''spring_energies''" and outer="[?R, ?S]"] assms
    by (simp add: setup_spring_energies_def)
  have s5: "setup_lambdas (st, fs(p \<mapsto> H5File ?f4)) = (Inr (), (st, fs(p \<mapsto> H5File ?f5)))"
    using create_dataset_open[where st=st and h=h and p=p and fs="fs(p \<mapsto> H5File ?f4)"
        and f="?f4" and name="''lambdas''" and outer="[?R]"] assms
    by (simp add: setup_lambdas_def)
  have s6: "setup_energies (st, fs(p \<mapsto> H5File ?f5)) = (Inr (), (st, fs(p \<mapsto> H5File ?f6)))"
    using create_dataset_open[where st=st and h=h and p=p and fs="fs(p \<mapsto> H5File ?f5)"
        and f="?f5" and name="''energies''" and outer="[?R]"] assms
    by (simp add: setup_energies_def)
  have run: "setup_h5_datasets (st, fs) = (Inr (), (st, fs(p \<mapsto> H5File ?f6)))"
    by (simp add: setup_h5_datasets_def py_bind_def s1 s2 s3 s4 s5 s6)
  have ok: "container_ok st ?f6 1"
    by (simp add: container_ok_def quantities_def series_ok_def fresh_dataset_ok)
  from run ok show ?thesis by blast
qed

lemma initialize_new_ready:
  assumes "fs data_dir = None" "fs backup_dir = None" "fs h5_path = None"
  shows "\<exists>fs'. initialize ''new'' (st, fs) =
       (Inr (), (st\<lparr>h5_file := Some \<lparr>h_path = h5_path, h_mode = ModeCreateExcl, h_open = True\<rparr>\<rparr>, fs')) \<and>
     store_ready 1 (st\<lparr>h5_file := Some \<lparr>h_path = h5_path, h_mode = ModeCreateExcl, h_open = True\<rparr>\<rparr>, fs') \<and>
     fs' data_dir = Some Dir \<and> fs' backup_dir = Some Dir \<and>
     (\<forall>p. p \<noteq> data_dir \<and> p \<noteq> backup_dir \<and> p \<noteq> h5_path \<longrightarrow> fs' p = fs p)"
proof -
  let ?h = "\<lparr>h_path = h5_path, h_mode = ModeCreateExcl, h_open = True\<rparr>"
  let ?st = "st\<lparr>h5_file := Some ?h\<rparr>"
  let ?fs3 = "fs(data_dir \<mapsto> Dir, backup_dir \<mapsto> Dir, h5_path \<mapsto> H5File (\<lambda>_. None))"
  have pre: "(py_bind (on_fs (os_mkdir data_dir)) (\<lambda>_.
          py_bind (on_fs (os_mkdir backup_dir)) (\<lambda>_.
          py_bind (on_fs (h5py_File h5_path ModeCreateExcl)) (\<lambda>h.
          py_bind (set_h5_file (Some h)) (\<lambda>_.
          setup_h5_datasets))))) (st, fs) = setup_h5_datasets (?st, ?fs3)"
    using assms
    by (simp add: py_bind_def on_fs_def os_mkdir_def h5py_File_def set_h5_file_def parent_ok_def
        path_values data_dir_def split_values)
  obtain f where f: "setup_h5_datasets (?st, ?fs3) = (Inr (), (?st, ?fs3(h5_path \<mapsto> H5File f)))"
    "container_ok ?st f 1"
    using setup_h5_datasets_fresh[where st="?st" and h="?h" and p=h5_path and fs="?fs3"]
    by auto
  have first: "initialize ''new'' (st, fs) =
     (py_bind (on_fs (os_mkdir data_dir)) (\<lambda>_.
          py_bind (on_fs (os_mkdir backup_dir)) (\<lambda>_.
          py_bind (on_fs (h5py_File h5_path ModeCreateExcl)) (\<lambda>h.
          py_bind (set_h5_file (Some h)) (\<lambda>_.
          setup_h5_datasets))))) (st, fs)"
    using assms(1)
    by (simp add: initialize_def py_bind_Inr[of _ _ False "(st, fs)"] on_fs_def os_path_exists_def)
  have init: "initialize ''new'' (st, fs) = (Inr (), (?st, ?fs3(h5_path \<mapsto> H5File f)))"
    using first pre f(1) by simp
  have ready: "store_ready 1 (?st, ?fs3(h5_path \<mapsto> H5File f))"
    using f(2) by (simp add: store_ready_def)
  show ?thesis
    using init ready by (auto simp: path_values data_dir_def)
qed



section \<open>The steps of a backup\<close>

lemma private_backup_step:
  assumes "fs backup_dir = Some Dir" "fs p \<noteq> Some Dir" "fs (make_backup_path p) \<noteq> Some Dir"
    "p \<noteq> make_backup_path p" "fst (os_path_split (make_backup_path p)) = backup_dir"
  shows "private_backup p (st, fs) = (Inr (), (st, copy_into fs p))"
proof (cases "fs p")
  case None
  then show ?thesis
    by (simp add: private_backup_def py_bind_def on_fs_def os_path_exists_def py_return_def
        copy_into_def)
next
  case (Some c)
  with assms show ?thesis
    by (cases c)
      (simp_all add: private_backup_def py_bind_def on_fs_def os_path_exists_def shutil_copy_def
        parent_ok_def copy_into_def Let_def)
qed

lemmas store_paths = path_values backup_path_values split_values

lemma copy_into_other:
  "q \<noteq> make_backup_path p \<Longrightarrow> copy_into fs p q = fs q"
  by (simp add: copy_into_def)

lemma copy_into_target:
  "copy_into fs p (make_backup_path p) = (if fs p = None then fs (make_backup_path p) else fs p)"
  by (simp add: copy_into_def)

lemma slice_shape_h5_file [simp]: "slice_shape (st\<lparr>h5_file := x\<rparr>) q = slice_shape st q"
  by (cases q) simp_all

lemma container_ok_h5_file [simp]: "container_ok (st\<lparr>h5_file := x\<rparr>) f n = container_ok st f n"
  by (simp add: container_ok_def)

text \<open>The whole of a due backup on a store that is ready for it.\<close>

lemma backup_due:
  assumes "backup_ready (st, fs)" "stage mod backup_freq st = 0"
  shows "backup stage (st, fs) =
     (Inr (), (st\<lparr>h5_file := Some \<lparr>h_path = h5_path, h_mode = ModeAppend, h_open = True\<rparr>\<rparr>,
       copy_into (copy_into (copy_into (copy_into fs communicator_path) data_store_path)
         remd_runner_path) h5_path))"
proof -
  let ?fs1 = "copy_into fs communicator_path"
  let ?fs2 = "copy_into ?fs1 data_store_path"
  let ?fs3 = "copy_into ?fs2 remd_runner_path"
  let ?fs4 = "copy_into ?fs3 h5_path"
  from assms(1) obtain h f where h: "h5_file st = Some h" and freq: "backup_freq st \<noteq> 0"
    and bd: "fs backup_dir = Some Dir" and f: "fs h5_path = Some (H5File f)"
    and nd: "fs communicator_path \<noteq> Some Dir" "fs data_store_path \<noteq> Some Dir"
      "fs remd_runner_path \<noteq> Some Dir" "fs h5_path \<noteq> Some Dir"
      "fs (make_backup_path communicator_path) \<noteq> Some Dir"
      "fs (make_backup_path data_store_path) \<noteq> Some Dir"
      "fs (make_backup_path remd_runner_path) \<noteq> Some Dir"
      "fs (make_backup_path h5_path) \<noteq> Some Dir"
    by (auto simp: backup_ready_def backup_sources_def split: option.splits node.splits)
  have b1: "private_backup communicator_path (st, fs) = (Inr (), (st, ?fs1))"
    using bd nd by (intro private_backup_step) (simp_all add: store_paths)
  have b2: "private_backup data_store_path (st, ?fs1) = (Inr (), (st, ?fs2))"
    using bd nd by (intro private_backup_step) (simp_all add: store_paths copy_into_def)
  have b3: "private_backup remd_runner_path (st, ?fs2) = (Inr (), (st, ?fs3))"
    using bd nd by (intro private_backup_step) (simp_all add: store_paths copy_into_def)
  let ?stc = "st\<lparr>h5_file := Some (h\<lparr>h_open := False\<rparr>)\<rparr>"
  have cl: "h5_file_close (st, ?fs3) = (Inr (), (?stc, ?fs3))"
    using h by (simp add: h5_file_close_def)
  have b4: "private_backup h5_path (?stc, ?fs3) = (Inr (), (?stc, ?fs4))"
    using bd nd by (intro private_backup_step) (simp_all add: store_paths copy_into_def)
  have f4: "?fs4 h5_path = Some (H5File f)"
    using f by (simp add: store_paths copy_into_def)
  have op: "on_fs (h5py_File h5_path ModeAppend) (?stc, ?fs4) =
      (Inr \<lparr>h_path = h5_path, h_mode = ModeAppend, h_open = True\<rparr>, (?stc, ?fs4))"
    using f4 by (simp add: on_fs_def h5py_File_def)
  have md: "py_lift (python_mod stage (backup_freq st)) (st, fs) = (Inr 0, (st, fs))"
    using freq assms(2) by (simp add: py_lift_def python_mod_def)
  show ?thesis
    by (simp add: backup_def py_bind_def md b1 b2 b3 cl b4 op set_h5_file_def)
qed

lemma backup_not_due:
  assumes "backup_freq st \<noteq> 0" "stage mod backup_freq st \<noteq> 0"
  shows "backup stage (st, fs) = (Inr (), (st, fs))"
  using assms by (simp add: backup_def py_bind_def py_lift_def python_mod_def py_return_def)



section \<open>Stacking and unstacking replica states\<close>

lemma length_concat_uniform:
  "\<forall>x\<in>set xs. length x = k \<Longrightarrow> length (concat xs) = length xs * k"
  by (induction xs) auto

lemma chunk_of_concat:
  "\<forall>x\<in>set xs. length x = k \<Longrightarrow> i < length xs \<Longrightarrow>
   take k (drop (i * k) (concat xs)) = xs ! i"
proof (induction xs arbitrary: i)
  case Nil
  then show ?case by simp
next
  case (Cons x xs)
  show ?case
  proof (cases i)
    case 0
    with Cons.prems show ?thesis by simp
  next
    case (Suc j)
    with Cons.prems have "take k (drop (j * k) (concat xs)) = xs ! j"
      by (intro Cons.IH) auto
    with Cons.prems Suc show ?thesis by (simp add: add.commute)
  qed
qed

lemma np_array_stack_uniform:
  assumes "\<forall>a\<in>set xs. has_shape shp a" "xs \<noteq> []"
  shows "np_array_stack xs = Inr \<lparr>shape = length xs # shp, flat = concat (map flat xs)\<rparr> \<and>
     has_shape (length xs # shp) \<lparr>shape = length xs # shp, flat = concat (map flat xs)\<rparr>"
proof -
  from assms obtain x ys where xs: "xs = x # ys" by (cases xs) auto
  have all: "list_all (\<lambda>y. shape y = shape x) xs" and sx: "shape x = shp"
    using assms(1) xs by (auto simp: list_all_iff has_shape_def)
  have "length (concat (map flat xs)) = length (map flat xs) * prod_list shp"
    using assms(1) by (intro length_concat_uniform) (auto simp: has_shape_def)
  with all sx xs show ?thesis
    by (simp add: np_array_stack_def has_shape_def)
qed

lemma ndarray_getitem_stack:
  assumes "\<forall>a\<in>set xs. has_shape shp a" "i < length xs"
  shows "ndarray_getitem \<lparr>shape = length xs # shp, flat = concat (map flat xs)\<rparr> i = Inr (xs ! i)"
proof -
  have "take (prod_list shp) (drop (i * prod_list shp) (concat (map flat xs))) = map flat xs ! i"
    using assms by (intro chunk_of_concat) (auto simp: has_shape_def)
  moreover have "shape (xs ! i) = shp"
    using assms by (auto simp: has_shape_def)
  ultimately show ?thesis
    using assms(2) by (simp add: ndarray_getitem_def)
qed

lemma ndarray_item_scalars:
  "i < length xs \<Longrightarrow> ndarray_item (np_array_scalars xs) i = Inr (xs ! i)"
  by (simp add: ndarray_item_def np_array_scalars_def)

lemma stack_ok:
  assumes "\<forall>a\<in>set xs. has_shape shp a" "xs \<noteq> []"
  shows "\<exists>a. np_array_stack xs = Inr a \<and> has_shape (length xs # shp) a \<and>
     (\<forall>i<length xs. ndarray_getitem a i = Inr (xs ! i))"
  using np_array_stack_uniform[OF assms] ndarray_getitem_stack[OF assms(1)] by blast

lemma load_states_loop_ok:
  assumes "\<forall>i<n. ndarray_getitem P i = Inr (positions (states ! i))"
    "\<forall>i<n. ndarray_getitem V i = Inr (velocities (states ! i))"
    "\<forall>i<n. ndarray_getitem SS i = Inr (spring_states (states ! i))"
    "\<forall>i<n. ndarray_getitem SE i = Inr (spring_energies (states ! i))"
    "\<forall>i<n. ndarray_item L i = Inr (lam (states ! i))"
    "\<forall>i<n. ndarray_item E i = Inr (energy (states ! i))"
    "\<forall>i\<in>set js. i < n"
  shows "load_states_loop P V SS SE L E js = Inr (map (\<lambda>i. states ! i) js)"
  using assms(7)
proof (induction js)
  case Nil
  then show ?case by simp
next
  case (Cons i js)
  then have i: "i < n" and rest: "load_states_loop P V SS SE L E js = Inr (map (\<lambda>i. states ! i) js)"
    by simp_all
  from i assms(1-6) show ?case
    by (simp add: rest sum_bind_def SystemState_init_def)
qed



lemma stack_states:
  assumes "\<forall>a\<in>set xs. has_shape shp a"
  shows "\<exists>a. np_array_stack xs = Inr a \<and>
     (xs = [] \<or> (has_shape (length xs # shp) a \<and>
                  (\<forall>i<length xs. ndarray_getitem a i = Inr (xs ! i))))"
proof (cases "xs = []")
  case True
  then show ?thesis by (simp add: np_array_stack_def)
next
  case False
  with stack_ok[OF assms] show ?thesis by blast
qed

lemma loaded_eq:
  "has_shape shp a \<Longrightarrow>
   \<lparr>shape = shp, flat = (if prod_list shp = 0 then [] else map (to_float lib) (flat a))\<rparr> =
   array_astype lib a"
  by (auto simp: has_shape_def array_astype_def)

lemma array_astype_float: "array_is_float lib a \<Longrightarrow> array_astype lib a = a"
  by (cases a) (simp add: array_astype_def array_is_float_def list_all_iff map_idI)

lemma state_astype_float: "state_is_float lib s \<Longrightarrow> state_astype lib s = s"
  by (cases s) (simp add: state_astype_def state_is_float_def array_astype_float)

lemma ndarray_getitem_astype:
  "ndarray_getitem a i = Inr b \<Longrightarrow>
   ndarray_getitem (array_astype lib a) i = Inr (array_astype lib b)"
  by (auto simp: ndarray_getitem_def array_astype_def take_map drop_map
      split: list.splits if_splits)

lemma ndarray_item_astype:
  "ndarray_item a i = Inr x \<Longrightarrow> ndarray_item (array_astype lib a) i = Inr (to_float lib x)"
  by (auto simp: ndarray_item_def array_astype_def split: list.splits if_splits)

lemma load_quantity_state: "snd (load_quantity q s w) = w"
  by (cases w)
    (auto simp: load_quantity_getslice h5_getslice_def py_bind_def py_lift_def h5_dataset_def
      split: option.splits sum.splits prod.splits)

lemma load_quantity_pair: "load_quantity q s w = (fst (load_quantity q s w), w)"
  using load_quantity_state[of q s w] by (cases "load_quantity q s w") simp

lemma save_states_ok:
  assumes ready: "store_ready n (st, fs)" and lo: "- int n \<le> s" and hi: "s < int n"
    and len: "length states = n_replicas st"
    and ok: "\<forall>x\<in>set states. state_ok (n_atoms st) (n_springs st) x"
  shows "\<exists>fs'. save_states lib states s (st, fs) = (Inr (), (st, fs')) \<and> store_ready n (st, fs') \<and>
     load_states s (st, fs') = (Inr (map (state_astype lib) states), (st, fs'))"
proof -
  let ?R = "n_replicas st" and ?A = "n_atoms st" and ?S = "n_springs st"
  obtain aP where aP: "np_array_stack (map positions states) = Inr aP"
    "states = [] \<or> (has_shape [?R, ?A, 3] aP \<and>
       (\<forall>i<?R. ndarray_getitem aP i = Inr (positions (states ! i))))"
    using stack_states[of "map positions states" "[?A, 3]"] ok len
    by (auto simp: state_ok_def)
  obtain aV where aV: "np_array_stack (map velocities states) = Inr aV"
    "states = [] \<or> (has_shape [?R, ?A, 3] aV \<and>
       (\<forall>i<?R. ndarray_getitem aV i = Inr (velocities (states ! i))))"
    using stack_states[of "map velocities states" "[?A, 3]"] ok len
    by (auto simp: state_ok_def)
  obtain aSS where aSS: "np_array_stack (map spring_states states) = Inr aSS"
    "states = [] \<or> (has_shape [?R, ?S] aSS \<and>
       (\<forall>i<?R. ndarray_getitem aSS i = Inr (spring_states (states ! i))))"
    using stack_states[of "map spring_states states" "[?S]"] ok len
    by (auto simp: state_ok_def)
  obtain aSE where aSE: "np_array_stack (map spring_energies states) = Inr aSE"
    "states = [] \<or> (has_shape [?R, ?S] aSE \<and>
       (\<forall>i<?R. ndarray_getitem aSE i = Inr (spring_energies (states ! i))))"
    using stack_states[of "map spring_energies states" "[?S]"] ok len
    by (auto simp: state_ok_def)
  let ?aL = "np_array_scalars (map lam states)" and ?aE = "np_array_scalars (map energy states)"
  have aL: "has_shape [?R] ?aL" "\<forall>i<?R. ndarray_item ?aL i = Inr (lam (states ! i))"
    using len by (simp_all add: has_shape_def np_array_scalars_def ndarray_item_def)
  have aE: "has_shape [?R] ?aE" "\<forall>i<?R. ndarray_item ?aE i = Inr (energy (states ! i))"
    using len by (simp_all add: has_shape_def np_array_scalars_def ndarray_item_def)
  have R0: "states = [] \<Longrightarrow> ?R = 0" using len by simp
  have fP: "prod_list (slice_shape st Positions) = 0 \<or> has_shape (slice_shape st Positions) aP"
    using aP(2) R0 by auto
  have fV: "prod_list (slice_shape st Velocities) = 0 \<or> has_shape (slice_shape st Velocities) aV"
    using aV(2) R0 by auto
  have fSS: "prod_list (slice_shape st SpringStates) = 0 \<or>
      has_shape (slice_shape st SpringStates) aSS"
    using aSS(2) R0 by auto
  have fSE: "prod_list (slice_shape st SpringEnergies) = 0 \<or>
      has_shape (slice_shape st SpringEnergies) aSE"
    using aSE(2) R0 by auto
  have fL: "prod_list (slice_shape st Lambdas) = 0 \<or> has_shape (slice_shape st Lambdas) ?aL"
    using aL(1) by simp
  have fE: "prod_list (slice_shape st Energies) = 0 \<or> has_shape (slice_shape st Energies) ?aE"
    using aE(1) by simp
  define ld :: "quantity \<Rightarrow> 'a ndarray \<Rightarrow> py_error + 'a ndarray"
    where "ld = (\<lambda>q a. Inr \<lparr>shape = slice_shape st q,
      flat = (if prod_list (slice_shape st q) = 0 then [] else map (to_float lib) (flat a))\<rparr>)"
  obtain fs1 where s1: "save_quantity lib Positions aP s (st, fs) = (Inr (), (st, fs1))"
      "store_ready n (st, fs1)"
      "fst (load_quantity Positions s (st, fs1)) = ld Positions aP"
    using save_quantity_ok[OF ready lo hi fP, where lib=lib] unfolding ld_def by auto
  obtain fs2 where s2: "save_quantity lib Velocities aV s (st, fs1) = (Inr (), (st, fs2))"
      "store_ready n (st, fs2)"
      "fst (load_quantity Velocities s (st, fs2)) = ld Velocities aV"
      "\<And>q'. q' \<noteq> Velocities \<Longrightarrow>
         fst (load_quantity q' s (st, fs2)) = fst (load_quantity q' s (st, fs1))"
    using save_quantity_ok[OF s1(2) lo hi fV, where lib=lib] unfolding ld_def by auto
  obtain fs3 where s3: "save_quantity lib SpringStates aSS s (st, fs2) = (Inr (), (st, fs3))"
      "store_ready n (st, fs3)"
      "fst (load_quantity SpringStates s (st, fs3)) = ld SpringStates aSS"
      "\<And>q'. q' \<noteq> SpringStates \<Longrightarrow>
         fst (load_quantity q' s (st, fs3)) = fst (load_quantity q' s (st, fs2))"
    using save_quantity_ok[OF s2(2) lo hi fSS, where lib=lib] unfolding ld_def by auto
  obtain fs4 where s4: "save_quantity lib SpringEnergies aSE s (st, fs3) = (Inr (), (st, fs4))"
      "store_ready n (st, fs4)"
      "fst (load_quantity SpringEnergies s (st, fs4)) = ld SpringEnergies aSE"
      "\<And>q'. q' \<noteq> SpringEnergies \<Longrightarrow>
         fst (load_quantity q' s (st, fs4)) = fst (load_quantity q' s (st, fs3))"
    using save_quantity_ok[OF s3(2) lo hi fSE, where lib=lib] unfolding ld_def by auto
  obtain fs5 where s5: "save_quantity lib Lambdas ?aL s (st, fs4) = (Inr (), (st, fs5))"
      "store_ready n (st, fs5)"
      "fst (load_quantity Lambdas s (st, fs5)) = ld Lambdas ?aL"
      "\<And>q'. q' \<noteq> Lambdas \<Longrightarrow>
         fst (load_quantity q' s (st, fs5)) = fst (load_quantity q' s (st, fs4))"
    using save_quantity_ok[OF s4(2) lo hi fL, where lib=lib] unfolding ld_def by auto
  obtain fs6 where s6: "save_quantity lib Energies ?aE s (st, fs5) = (Inr (), (st, fs6))"
      "store_ready n (st, fs6)"
      "fst (load_quantity Energies s (st, fs6)) = ld Energies ?aE"
      "\<And>q'. q' \<noteq> Energies \<Longrightarrow>
         fst (load_quantity q' s (st, fs6)) = fst (load_quantity q' s (st, fs5))"
    using save_quantity_ok[OF s5(2) lo hi fE, where lib=lib] unfolding ld_def by auto
  have save: "save_states lib states s (st, fs) = (Inr (), (st, fs6))"
    using s1(1) s2(1) s3(1) s4(1) s5(1) s6(1)
    by (simp add: save_states_def py_bind_def py_lift_def py_return_def aP(1) aV(1) aSS(1) aSE(1))
  have lP: "load_positions s (st, fs6) = (ld Positions aP, (st, fs6))"
  proof -
    have "fst (load_quantity Positions s (st, fs6)) = ld Positions aP"
      using s1(3) s2(4)[of Positions] s3(4)[of Positions] s4(4)[of Positions] s5(4)[of Positions] s6(4)[of Positions] by simp
    then show ?thesis
      using load_quantity_pair[of Positions s "(st, fs6)"] by simp
  qed
  have lV: "load_velocities s (st, fs6) = (ld Velocities aV, (st, fs6))"
  proof -
    have "fst (load_quantity Velocities s (st, fs6)) = ld Velocities aV"
      using s2(3) s3(4)[of Velocities] s4(4)[of Velocities] s5(4)[of Velocities] s6(4)[of Velocities] by simp
    then show ?thesis
      using load_quantity_pair[of Velocities s "(st, fs6)"] by simp
  qed
  have lSS: "load_spring_states s (st, fs6) = (ld SpringStates aSS, (st, fs6))"
  proof -
    have "fst (load_quantity SpringStates s (st, fs6)) = ld SpringStates aSS"
      using s3(3) s4(4)[of SpringStates] s5(4)[of SpringStates] s6(4)[of SpringStates] by simp
    then show ?thesis
      using load_quantity_pair[of SpringStates s "(st, fs6)"] by simp
  qed
  have lSE: "load_spring_energies s (st, fs6) = (ld SpringEnergies aSE, (st, fs6))"
  proof -
    have "fst (load_quantity SpringEnergies s (st, fs6)) = ld SpringEnergies aSE"
      using s4(3) s5(4)[of SpringEnergies] s6(4)[of SpringEnergies] by simp
    then show ?thesis
      using load_quantity_pair[of SpringEnergies s "(st, fs6)"] by simp
  qed
  have lL: "load_lambdas s (st, fs6) = (ld Lambdas ?aL, (st, fs6))"
  proof -
    have "fst (load_quantity Lambdas s (st, fs6)) = ld Lambdas ?aL"
      using s5(3) s6(4)[of Lambdas] by simp
    then show ?thesis
      using load_quantity_pair[of Lambdas s "(st, fs6)"] by simp
  qed
  have lE: "load_energies s (st, fs6) = (ld Energies ?aE, (st, fs6))"
  proof -
    have "fst (load_quantity Energies s (st, fs6)) = ld Energies ?aE"
      using s6(3)  by simp
    then show ?thesis
      using load_quantity_pair[of Energies s "(st, fs6)"] by simp
  qed
  have load: "load_states s (st, fs6) = (Inr (map (state_astype lib) states), (st, fs6))"
  proof (cases "states = []")
    case True
    with R0 show ?thesis
      by (simp add: load_states_def py_bind_def lP lV lSS lSE lL lE ld_def)
  next
    case False
    with aP(2) aV(2) aSS(2) aSE(2)
    have sh: "has_shape [?R, ?A, 3] aP" "has_shape [?R, ?A, 3] aV"
        "has_shape [?R, ?S] aSS" "has_shape [?R, ?S] aSE"
      and rw: "\<forall>i<?R. ndarray_getitem aP i = Inr (positions (states ! i))"
        "\<forall>i<?R. ndarray_getitem aV i = Inr (velocities (states ! i))"
        "\<forall>i<?R. ndarray_getitem aSS i = Inr (spring_states (states ! i))"
        "\<forall>i<?R. ndarray_getitem aSE i = Inr (spring_energies (states ! i))"
      by simp_all
    have eqs: "ld Positions aP = Inr (array_astype lib aP)"
        "ld Velocities aV = Inr (array_astype lib aV)"
        "ld SpringStates aSS = Inr (array_astype lib aSS)"
        "ld SpringEnergies aSE = Inr (array_astype lib aSE)"
        "ld Lambdas ?aL = Inr (array_astype lib ?aL)"
        "ld Energies ?aE = Inr (array_astype lib ?aE)"
      using loaded_eq[OF sh(1), of lib] loaded_eq[OF sh(2), of lib] loaded_eq[OF sh(3), of lib]
        loaded_eq[OF sh(4), of lib] loaded_eq[OF aL(1), of lib] loaded_eq[OF aE(1), of lib]
      by (simp_all add: ld_def)
    let ?ss = "map (state_astype lib) states"
    have nth: "\<And>i. i < ?R \<Longrightarrow> ?ss ! i = state_astype lib (states ! i)"
      using len by simp
    have loop: "load_states_loop (array_astype lib aP) (array_astype lib aV)
        (array_astype lib aSS) (array_astype lib aSE) (array_astype lib ?aL)
        (array_astype lib ?aE) [0..<?R] = Inr (map (\<lambda>i. ?ss ! i) [0..<?R])"
    proof (intro load_states_loop_ok[where n="?R"])
      show "\<forall>i<?R. ndarray_getitem (array_astype lib aP) i = Inr (positions (?ss ! i))"
        using rw(1) nth by (simp add: ndarray_getitem_astype state_astype_def)
      show "\<forall>i<?R. ndarray_getitem (array_astype lib aV) i = Inr (velocities (?ss ! i))"
        using rw(2) nth by (simp add: ndarray_getitem_astype state_astype_def)
      show "\<forall>i<?R. ndarray_getitem (array_astype lib aSS) i = Inr (spring_states (?ss ! i))"
        using rw(3) nth by (simp add: ndarray_getitem_astype state_astype_def)
      show "\<forall>i<?R. ndarray_getitem (array_astype lib aSE) i = Inr (spring_energies (?ss ! i))"
        using rw(4) nth by (simp add: ndarray_getitem_astype state_astype_def)
      show "\<forall>i<?R. ndarray_item (array_astype lib ?aL) i = Inr (lam (?ss ! i))"
        using aL(2) nth by (simp add: ndarray_item_astype state_astype_def)
      show "\<forall>i<?R. ndarray_item (array_astype lib ?aE) i = Inr (energy (?ss ! i))"
        using aE(2) nth by (simp add: ndarray_item_astype state_astype_def)
      show "\<forall>i\<in>set [0..<?R]. i < ?R" by simp
    qed
    have "map (\<lambda>i. ?ss ! i) [0..<?R] = ?ss"
      using len map_nth[of ?ss] by simp
    with loop show ?thesis
      by (simp add: load_states_def py_bind_def lP lV lSS lSE lL lE eqs)
  qed
  from save s6(2) load show ?thesis by blast
qed



section \<open>Saves keep the store ready\<close>

lemma store_ready_stage_axis_lengths:
  assumes "store_ready n w"
  shows "stage_axis_lengths (snd w) = [Some n, Some n, Some n, Some n, Some n, Some n]"
proof -
  obtain st fs where w: "w = (st, fs)" by (cases w)
  from assms[unfolded w] obtain h f where hf: "fs h5_path = Some (H5File f)" "container_ok st f n"
    by (rule store_readyE)
  have "stage_axis_length fs q = Some n" for q
    using container_ok_series[OF hf(2), of q] hf(1)
    by (auto simp: stage_axis_length_def dataset_ok_def)
  then show ?thesis by (simp add: w stage_axis_lengths_def quantities_def)
qed

lemma py_bind_inv:
  assumes "\<And>w. I w \<Longrightarrow> I (snd (m w))" "\<And>x w. I w \<Longrightarrow> I (snd (f x w))" "I w"
  shows "I (snd (py_bind m f w))"
proof (cases "m w")
  case (Pair r w')
  with assms(1)[OF assms(3)] have "I w'" by simp
  with Pair assms(2) show ?thesis by (cases r) (simp_all add: py_bind_def)
qed

lemma save_quantity_inv: "store_ready n w \<Longrightarrow> store_ready n (snd (save_quantity lib q v s w))"
  using save_quantity_ready[where n=n and st="fst w" and fs="snd w" and lib=lib and q=q and v=v and s=s] by auto

lemma save_states_inv: "store_ready n w \<Longrightarrow> store_ready n (snd (save_states lib states s w))"
  unfolding save_states_def
  by (intro py_bind_inv[where I="store_ready n"])
    (simp_all add: py_lift_def py_return_def save_quantity_inv[where q=Positions, simplified]
      save_quantity_inv[where q=Velocities, simplified]
      save_quantity_inv[where q=SpringStates, simplified]
      save_quantity_inv[where q=SpringEnergies, simplified]
      save_quantity_inv[where q=Lambdas, simplified]
      save_quantity_inv[where q=Energies, simplified])

lemma run_save_inv: "store_ready n w \<Longrightarrow> store_ready n (run_save lib c w)"
  by (cases c) (simp_all add: save_quantity_inv save_states_inv)

lemma run_saves_inv: "store_ready n w \<Longrightarrow> store_ready n (run_saves lib calls w)"
  unfolding run_saves_def by (induction calls arbitrary: w) (simp_all add: run_save_inv)



section \<open>The concrete store\<close>

lemma example_store_facts:
  "store_ready 1 example_store"
  "fst example_store = (DataStore_init 1 1 2 100)\<lparr>h5_file := Some example_handle\<rparr>"
  "snd example_store ''Data'' = Some Dir"
  "snd example_store ''Data/Backup'' = Some Dir"
  "snd example_store ''Data/data_store.dat'' = None"
  "snd example_store ''Data/communicator.dat'' = None"
  "snd example_store ''Data/remd_runner.dat'' = None"
  "snd example_store ''Data/Backup/data_store.dat'' = None"
  "snd example_store ''Data/Backup/communicator.dat'' = None"
  "snd example_store ''Data/Backup/remd_runner.dat'' = None"
  "snd example_store ''Data/Backup/results.h5'' = None"
proof -
  let ?st = "DataStore_init 1 1 2 100"
  obtain fs' :: "int filesystem" where
    i: "initialize ''new'' (?st, \<lambda>_. None) = (Inr (), (?st\<lparr>h5_file := Some example_handle\<rparr>, fs'))"
    and r: "store_ready 1 (?st\<lparr>h5_file := Some example_handle\<rparr>, fs')"
    and d: "fs' data_dir = Some Dir" "fs' backup_dir = Some Dir"
    and o: "\<And>p. p \<noteq> data_dir \<Longrightarrow> p \<noteq> backup_dir \<Longrightarrow> p \<noteq> h5_path \<Longrightarrow> fs' p = None"
    using initialize_new_ready[of "\<lambda>_. None :: int node option" ?st]
    unfolding example_handle_def by auto
  have e: "example_store = (?st\<lparr>h5_file := Some example_handle\<rparr>, fs')"
    unfolding example_store_def i by simp
  show "store_ready 1 example_store" unfolding e using r by simp
  show "fst example_store = ?st\<lparr>h5_file := Some example_handle\<rparr>" unfolding e by simp
  show "snd example_store ''Data'' = Some Dir" unfolding e using d(1) by (simp add: data_dir_def)
  show "snd example_store ''Data/Backup'' = Some Dir" unfolding e using d(2) by (simp add: path_values)
  show "snd example_store ''Data/data_store.dat'' = None"
    unfolding e using o[of "''Data/data_store.dat''"] by (simp add: path_values data_dir_def)
  show "snd example_store ''Data/communicator.dat'' = None"
    unfolding e using o[of "''Data/communicator.dat''"] by (simp add: path_values data_dir_def)
  show "snd example_store ''Data/remd_runner.dat'' = None"
    unfolding e using o[of "''Data/remd_runner.dat''"] by (simp add: path_values data_dir_def)
  show "snd example_store ''Data/Backup/data_store.dat'' = None"
    unfolding e using o[of "''Data/Backup/data_store.dat''"] by (simp add: path_values data_dir_def)
  show "snd example_store ''Data/Backup/communicator.dat'' = None"
    unfolding e using o[of "''Data/Backup/communicator.dat''"] by (simp add: path_values data_dir_def)
  show "snd example_store ''Data/Backup/remd_runner.dat'' = None"
    unfolding e using o[of "''Data/Backup/remd_runner.dat''"] by (simp add: path_values data_dir_def)
  show "snd example_store ''Data/Backup/results.h5'' = None"
    unfolding e using o[of "''Data/Backup/results.h5''"] by (simp add: path_values data_dir_def)
qed

lemma example_store_ready_pair: "store_ready 1 (fst example_store, snd example_store)"
  using example_store_facts(1) by simp

lemma example_store_backup_ready: "backup_ready example_store"
proof -
  obtain f where f: "snd example_store ''Data/results.h5'' = Some (H5File f)"
    using example_store_facts(1)
    by (auto simp: store_ready_def path_values split: option.splits node.splits)
  show ?thesis
    using example_store_facts(2-) f
    by (simp add: backup_ready_def backup_sources_def store_paths DataStore_init_def)
qed



lemma copy_into_apply:
  "copy_into fs p q = (if q = make_backup_path p \<and> fs p \<noteq> None then fs p else fs q)"
  by (auto simp: copy_into_def)

section \<open>The conversion to float64 on integers\<close>

lemma float64_of_int_small: "abs x < 2 ^ 53 \<Longrightarrow> float64_of_int x = x"
proof -
  assume a: "abs x < 2 ^ 53"
  then have "nat (abs x) < 2 ^ 53" by (simp add: nat_less_iff)
  then have "excess_bits (nat (abs x)) = 0" by (subst excess_bits.simps) simp
  then show ?thesis by (simp add: float64_of_int_def Let_def mult_sgn_abs)
qed

lemma float64_of_int_tie: "float64_of_int 9007199254740993 = 9007199254740992"
proof -
  have "excess_bits 4503599627370496 = 0" by (subst excess_bits.simps) simp
  then have "excess_bits 9007199254740993 = 1" by (subst excess_bits.simps) simp
  then show ?thesis by (simp add: float64_of_int_def Let_def)
qed

section \<open>Round trips in general\<close>

lemma save_load_converted:
  assumes "store_ready n w" "- int n \<le> s" "s < int n" "has_shape (slice_shape (fst w) q) v"
  shows "fst (save_quantity lib q v s w) = Inr () \<and>
     fst (load_quantity q s (snd (save_quantity lib q v s w))) = Inr (array_astype lib v)"
proof -
  obtain st fs where w: "w = (st, fs)" by (cases w)
  have fits: "prod_list (slice_shape st q) = 0 \<or> has_shape (slice_shape st q) v"
    using assms(4) by (simp add: w)
  obtain fs' where sv: "save_quantity lib q v s (st, fs) = (Inr (), (st, fs'))"
    and ld: "load_quantity q s (st, fs') =
       (Inr \<lparr>shape = slice_shape st q,
             flat = (if prod_list (slice_shape st q) = 0 then []
                     else map (to_float lib) (flat v))\<rparr>, (st, fs'))"
    using save_quantity_ok[OF assms(1)[unfolded w] assms(2,3) fits, where lib=lib] by blast
  have "\<lparr>shape = slice_shape st q,
      flat = (if prod_list (slice_shape st q) = 0 then [] else map (to_float lib) (flat v))\<rparr> =
      array_astype lib v"
    using assms(4) by (intro loaded_eq) (simp add: w)
  with sv ld show ?thesis by (simp add: w)
qed

lemma save_states_load_states_converted:
  assumes "store_ready n w" "- int n \<le> s" "s < int n" "length states = n_replicas (fst w)"
    "list_all (state_ok (n_atoms (fst w)) (n_springs (fst w))) states"
  shows "fst (save_states lib states s w) = Inr () \<and>
     fst (load_states s (snd (save_states lib states s w))) = Inr (map (state_astype lib) states)"
proof -
  obtain st fs where w: "w = (st, fs)" by (cases w)
  have ok: "\<forall>x\<in>set states. state_ok (n_atoms st) (n_springs st) x"
    using assms(5) by (simp add: w list_all_iff)
  have len: "length states = n_replicas st" using assms(4) by (simp add: w)
  obtain fs' where "save_states lib states s (st, fs) = (Inr (), (st, fs'))"
    "load_states s (st, fs') = (Inr (map (state_astype lib) states), (st, fs'))"
    using save_states_ok[OF assms(1)[unfolded w] assms(2,3) len ok, where lib=lib] by blast
  then show ?thesis by (simp add: w)
qed

lemma example_store_range: "- int 1 \<le> 0" "(0 :: int) < int 1"
  by simp_all

section \<open>The claims\<close>

subsection \<open>C1: the mode \<open>safe\<close>\<close>

text \<open>
  Claim C1: for a store with an existing backup, \<open>initialize('safe')\<close> succeeds, opens the
  most recent backup copy read-only, and every mutating call made in this mode fails.
  The docstring of \<open>initialize\<close> lists the mode (\<open>safe -- open the backup copies in
  read-only mode to prevent corruption\<close>), but the method has branches for \<open>new\<close> and
  \<open>existing\<close> only: on any store and any file system, \<open>initialize('safe')\<close> raises
  \<open>RuntimeError('Unknown value for mode=safe')\<close> and changes nothing.
\<close>

theorem initialize_safe_raises:
  "initialize ''safe'' w = (Inl (RuntimeError ''Unknown value for mode=safe''), w)"
  by (simp add: initialize_def py_raise_def)

theorem initialize_safe_raises_witness:
  "fst (initialize ''safe'' example_store) = Inl (RuntimeError ''Unknown value for mode=safe'')"
  using initialize_safe_raises[of example_store] by simp

subsection \<open>C2: the stage axis\<close>

text \<open>
  Claim C2: a save at a stage at or beyond the current length of the stage axis grows
  the series so that the write succeeds, and after any sequence of saves the six series
  have the same stage-axis length, which never shrinks. Every series is created with one
  stage and an unlimited stage axis (\<open>maxshape\<close> ends in \<open>None\<close>), and the saves take any
  stage, but no save resizes a series: on an open store whose six series have \<open>n\<close>
  stages, a save of any quantity at a stage \<open>k \<ge> n\<close> raises h5py's index error and
  leaves the store and the file system as they were. Only the second half of the claim
  holds: after any sequence of saves, whether they return or raise, the store is still
  open on six series of \<open>n\<close> stages each.
\<close>

theorem saves_never_grow:
  assumes "store_ready n w" "int n \<le> k"
  shows "save_quantity lib q v k w = (Inl ValueError, w) \<and>
     store_ready n (run_saves lib calls w) \<and>
     stage_axis_lengths (snd (run_saves lib calls w)) =
       [Some n, Some n, Some n, Some n, Some n, Some n]"
proof -
  have "save_quantity lib q v k (fst w, snd w) = (Inl ValueError, (fst w, snd w))"
    using assms by (intro save_quantity_out_of_range) simp_all
  moreover have r: "store_ready n (run_saves lib calls w)"
    using assms(1) by (rule run_saves_inv)
  ultimately show ?thesis
    using store_ready_stage_axis_lengths[OF r] by simp
qed

theorem saves_never_grow_witness:
  "save_quantity example_h5py Lambdas example_lambdas 1 example_store =
     (Inl ValueError, example_store) \<and>
   stage_axis_lengths (snd (run_saves example_h5py
       [SaveQuantity Energies example_lambdas 0, SaveQuantity Lambdas example_lambdas 1,
        SaveStates example_states 0, SaveStates example_states 3] example_store)) =
     [Some 1, Some 1, Some 1, Some 1, Some 1, Some 1]"
  using saves_never_grow[OF example_store_facts(1), of 1 example_h5py Lambdas example_lambdas
      "[SaveQuantity Energies example_lambdas 0, SaveQuantity Lambdas example_lambdas 1,
        SaveStates example_states 0, SaveStates example_states 3]"]
  by simp

subsection \<open>C3: the mode \<open>existing\<close>\<close>

text \<open>
  A store constructed for 500 atoms, 100 springs and 4 replicas opens a container whose
  only series is a \<open>positions\<close> of one replica and one atom: no error is raised.
\<close>

theorem initialize_existing_mismatch_counterexample:
  "fst (initialize ''existing''
     (DataStore_init 500 100 4 100,
      [''Data'' \<mapsto> Dir,
       ''Data/results.h5'' \<mapsto> H5File [''positions'' \<mapsto>
          \<lparr>dshape = [1, 1, 3, 1], maxshape = [Some 1, Some 1, Some 3, None],
           rows = replicate 3 [0 :: int]\<rparr>]])) = Inr ()"
  by (simp add: initialize_def py_bind_def on_fs_def h5py_File_def set_h5_file_def path_values)

text \<open>
  Claim C3, amended: \<open>initialize('existing')\<close> opens the container file for read/append
  and examines none of its series: whenever \<open>Data/results.h5\<close> is an HDF5 container,
  whatever it holds, the call returns normally, sets the handle, and leaves the
  construction parameters and the file system unchanged.
\<close>

theorem initialize_existing_opens_unchecked:
  assumes "snd w h5_path = Some (H5File f)"
  shows "initialize ''existing'' w =
     (Inr (), ((fst w)\<lparr>h5_file := Some \<lparr>h_path = h5_path, h_mode = ModeAppend, h_open = True\<rparr>\<rparr>,
       snd w))"
  using assms
  by (cases w) (simp add: initialize_def py_bind_def on_fs_def h5py_File_def set_h5_file_def)

theorem initialize_existing_opens_unchecked_witness:
  "fst (initialize ''existing''
     (DataStore_init 500 100 4 100,
      [''Data'' \<mapsto> Dir, ''Data/results.h5'' \<mapsto> H5File (\<lambda>_. None :: int dataset option)])) = Inr ()"
  using initialize_existing_opens_unchecked[of
      "(DataStore_init 500 100 4 100,
        [''Data'' \<mapsto> Dir, ''Data/results.h5'' \<mapsto> H5File (\<lambda>_. None :: int dataset option)])"
      "\<lambda>_. None"]
  by (simp add: path_values)

subsection \<open>C4: the communicator before \<open>initialize\<close>\<close>

text \<open>
  A communicator that was initialized, pickled and loaded again is a new object on which
  \<open>initialize\<close> has not been called. Its MPI handle is \<open>None\<close>, but \<open>__getstate__\<close> drops
  only \<open>_mpi_comm\<close>, so the pickle carries \<open>_my_rank\<close>: \<open>rank\<close> returns the rank of the
  process that saved it.
\<close>

theorem reloaded_communicator_rank_counterexample:
  "mpi_comm (MPICommunicator_setstate (MPICommunicator_getstate example_comm)
      :: int MPICommunicator) = None \<and>
   rank (MPICommunicator_setstate (MPICommunicator_getstate example_comm)
      :: int MPICommunicator) = Inr 0"
  by (simp add: MPICommunicator_setstate_def MPICommunicator_getstate_def example_comm_def
      MPICommunicator_initialize_def MPICommunicator_init_def rank_def)

text \<open>
  Claim C4, amended: on a communicator whose MPI handle is unset (which is what the
  constructor and \<open>__setstate__\<close> produce) each of the ten transfer methods raises; the
  error is Python's \<open>AttributeError\<close> for a method call on \<open>None\<close>, the code has no error
  of its own for this. On a newly constructed communicator the handle is unset and the
  attribute \<open>_my_rank\<close> does not exist, so reading \<open>rank\<close> raises \<open>AttributeError\<close> too. A
  communicator loaded from a pickle has its handle unset and gives for \<open>rank\<close> what the
  pickled communicator gave: the rank it had when it was saved, or the same error.
\<close>

theorem uninitialized_communicator_raises:
  assumes "mpi_comm c = None"
  shows "broadcast_lambdas_to_slaves c x = Inl AttributeError \<and>
     recieve_lambda_from_master c = Inl AttributeError \<and>
     broadcast_states_to_slaves c x = Inl AttributeError \<and>
     recieve_state_from_master c = Inl AttributeError \<and>
     gather_states_from_slaves c x = Inl AttributeError \<and>
     send_state_to_master c x = Inl AttributeError \<and>
     broadcast_states_for_energy_calc_to_slaves c x = Inl AttributeError \<and>
     recieve_states_for_energy_calc_from_master c = Inl AttributeError \<and>
     gather_energies_from_slaves np_array c x = Inl AttributeError \<and>
     send_energies_to_master c x = Inl AttributeError \<and>
     mpi_comm (MPICommunicator_init a r s :: 'p MPICommunicator) = None \<and>
     rank (MPICommunicator_init a r s :: 'p MPICommunicator) = Inl AttributeError \<and>
     mpi_comm (MPICommunicator_setstate (MPICommunicator_getstate c') :: 'p MPICommunicator) = None \<and>
     rank (MPICommunicator_setstate (MPICommunicator_getstate c') :: 'p MPICommunicator) =
       rank (c' :: 'p MPICommunicator)"
  using assms
  by (simp add: MPICommunicator_init_def mpi_call_def sum_bind_def
      broadcast_lambdas_to_slaves_def recieve_lambda_from_master_def
      broadcast_states_to_slaves_def recieve_state_from_master_def
      gather_states_from_slaves_def send_state_to_master_def
      broadcast_states_for_energy_calc_to_slaves_def
      recieve_states_for_energy_calc_from_master_def gather_energies_from_slaves_def
      send_energies_to_master_def rank_def MPICommunicator_setstate_def
      MPICommunicator_getstate_def)

theorem uninitialized_communicator_raises_witness:
  "mpi_comm (MPICommunicator_init 500 16 100 :: int MPICommunicator) = None \<and>
   broadcast_lambdas_to_slaves (MPICommunicator_init 500 16 100) (0 :: int) = Inl AttributeError \<and>
   gather_states_from_slaves (MPICommunicator_init 500 16 100) (0 :: int) = Inl AttributeError \<and>
   send_state_to_master (MPICommunicator_init 500 16 100) (0 :: int) = Inl AttributeError \<and>
   rank (MPICommunicator_init 500 16 100 :: int MPICommunicator) = Inl AttributeError \<and>
   gather_states_from_slaves
     (MPICommunicator_setstate (MPICommunicator_getstate example_comm)) (0 :: int) =
     Inl AttributeError \<and>
   rank (MPICommunicator_setstate (MPICommunicator_getstate example_comm) :: int MPICommunicator) =
     rank example_comm"
proof -
  have h: "mpi_comm (MPICommunicator_init 500 16 100 :: int MPICommunicator) = None"
    by (simp add: MPICommunicator_init_def)
  have h': "mpi_comm (MPICommunicator_setstate (MPICommunicator_getstate example_comm)
      :: int MPICommunicator) = None"
    by (simp add: MPICommunicator_setstate_def)
  show ?thesis
    using uninitialized_communicator_raises[OF h, of 0 id 500 16 100 example_comm]
      uninitialized_communicator_raises[OF h', of 0 id 500 16 100 example_comm]
    by simp
qed

subsection \<open>C5: one quantity, saved and loaded\<close>

text \<open>
  The series hold float64 elements. Energies given as the integers \<open>2^53 + 1\<close> and \<open>5\<close>
  are saved at stage 0 of the store just created; the load of stage 0 returns \<open>2^53\<close>
  and \<open>5\<close>, which is not the value that was saved.
\<close>

theorem save_load_not_float_counterexample:
  "fst (save_quantity example_h5py Energies example_big_energies 0 example_store) = Inr () \<and>
   fst (load_quantity Energies 0
          (snd (save_quantity example_h5py Energies example_big_energies 0 example_store))) =
     Inr \<lparr>shape = [2], flat = [9007199254740992, 5]\<rparr> \<and>
   example_big_energies = \<lparr>shape = [2], flat = [9007199254740993, 5]\<rparr>"
proof -
  have shp: "has_shape (slice_shape (fst example_store) Energies) example_big_energies"
    by (simp add: example_store_facts(2) has_shape_def example_big_energies_def
        DataStore_init_def)
  have conv: "array_astype example_h5py example_big_energies =
      \<lparr>shape = [2], flat = [9007199254740992, 5]\<rparr>"
    by (simp add: array_astype_def example_big_energies_def example_h5py_def
        float64_of_int_tie float64_of_int_small)
  show ?thesis
    using save_load_converted[OF example_store_facts(1) example_store_range shp,
        of example_h5py] conv
    by (simp add: example_big_energies_def)
qed

text \<open>
  Claim C5, amended: for each of the six quantities, on an open store whose series have
  \<open>n\<close> stages, for every value of the quantity's shape and every stage \<open>s\<close> that exists
  (\<open>-n \<le> s < n\<close>, a negative stage counting from the end), the save returns and the
  load of the same stage on the resulting store returns the value with each element
  converted to float64; it is equal to the saved value when that is an array of float64
  values.
\<close>

theorem save_load_roundtrip:
  assumes "store_ready n w" "- int n \<le> s" "s < int n" "has_shape (slice_shape (fst w) q) v"
  shows "fst (save_quantity lib q v s w) = Inr () \<and>
     fst (load_quantity q s (snd (save_quantity lib q v s w))) = Inr (array_astype lib v) \<and>
     (array_is_float lib v \<longrightarrow>
        fst (load_quantity q s (snd (save_quantity lib q v s w))) = Inr v)"
  using save_load_converted[OF assms, of lib] array_astype_float[of lib v] by auto

theorem save_load_roundtrip_witness:
  "fst (save_quantity example_h5py Lambdas example_lambdas 0 example_store) = Inr () \<and>
   fst (load_quantity Lambdas 0
          (snd (save_quantity example_h5py Lambdas example_lambdas 0 example_store))) =
     Inr example_lambdas"
proof -
  have shp: "has_shape (slice_shape (fst example_store) Lambdas) example_lambdas"
    by (simp add: example_store_facts(2) has_shape_def example_lambdas_def DataStore_init_def)
  have fl: "array_is_float example_h5py example_lambdas"
    by (simp add: array_is_float_def example_lambdas_def example_h5py_def float64_of_int_small)
  show ?thesis
    using save_load_roundtrip[OF example_store_facts(1) example_store_range shp,
        of example_h5py] fl
    by blast
qed

subsection \<open>C6: replica states, saved and loaded\<close>

text \<open>
  Two replica states, the first with the integer energy \<open>2^53 + 1\<close>, are saved at stage
  0 of the store just created; the states that \<open>load_states\<close> returns have the energies
  \<open>2^53\<close> and \<open>19\<close>, so the first is not the state that was saved.
\<close>

theorem save_states_not_float_counterexample:
  "fst (save_states example_h5py example_big_states 0 example_store) = Inr () \<and>
   (case fst (load_states 0 (snd (save_states example_h5py example_big_states 0 example_store))) of
      Inl e \<Rightarrow> False
    | Inr loaded \<Rightarrow> map energy loaded = [9007199254740992, 19]) \<and>
   map energy example_big_states = [9007199254740993, 19]"
proof -
  have len: "length example_big_states = n_replicas (fst example_store)"
    by (simp add: example_store_facts(2) DataStore_init_def example_big_states_def)
  have ok: "list_all (state_ok (n_atoms (fst example_store)) (n_springs (fst example_store)))
      example_big_states"
    by (simp add: example_store_facts(2) DataStore_init_def example_big_states_def state_ok_def
        has_shape_def SystemState_init_def)
  have conv: "map energy (map (state_astype example_h5py) example_big_states) =
      [9007199254740992, 19]"
    by (simp add: example_big_states_def state_astype_def SystemState_init_def example_h5py_def
        float64_of_int_tie float64_of_int_small)
  show ?thesis
    using save_states_load_states_converted[OF example_store_facts(1) example_store_range len ok,
        of example_h5py] conv
    by (simp add: example_big_states_def SystemState_init_def)
qed

text \<open>
  Claim C6, amended: on an open store whose series have \<open>n\<close> stages, for every list of
  \<open>n_replicas\<close> states whose arrays have the store's atom and spring counts, and every
  stage that exists (\<open>-n \<le> s < n\<close>), \<open>save_states\<close> returns and \<open>load_states\<close> of the
  same stage returns the states in the same order, each with its six fields converted
  element by element to float64; the list is equal to the saved one when the fields
  of every state are float64 values.
\<close>

theorem save_states_load_states_roundtrip:
  assumes "store_ready n w" "- int n \<le> s" "s < int n" "length states = n_replicas (fst w)"
    "list_all (state_ok (n_atoms (fst w)) (n_springs (fst w))) states"
  shows "fst (save_states lib states s w) = Inr () \<and>
     fst (load_states s (snd (save_states lib states s w))) =
       Inr (map (state_astype lib) states) \<and>
     (list_all (state_is_float lib) states \<longrightarrow>
        fst (load_states s (snd (save_states lib states s w))) = Inr states)"
proof -
  have "list_all (state_is_float lib) states \<Longrightarrow> map (state_astype lib) states = states"
    by (induction states) (simp_all add: state_astype_float)
  then show ?thesis
    using save_states_load_states_converted[OF assms, of lib] by auto
qed

theorem save_states_load_states_roundtrip_witness:
  "fst (save_states example_h5py example_states 0 example_store) = Inr () \<and>
   fst (load_states 0 (snd (save_states example_h5py example_states 0 example_store))) =
     Inr example_states"
proof -
  have len: "length example_states = n_replicas (fst example_store)"
    by (simp add: example_store_facts(2) DataStore_init_def example_states_def)
  have ok: "list_all (state_ok (n_atoms (fst example_store)) (n_springs (fst example_store)))
      example_states"
    by (simp add: example_store_facts(2) DataStore_init_def example_states_def state_ok_def
        has_shape_def SystemState_init_def)
  have fl: "list_all (state_is_float example_h5py) example_states"
    by (simp add: example_states_def state_is_float_def array_is_float_def SystemState_init_def
        example_h5py_def float64_of_int_small)
  show ?thesis
    using save_states_load_states_roundtrip[OF example_store_facts(1) example_store_range len ok,
        of example_h5py] fl
    by blast
qed

subsection \<open>C7: when a backup copies\<close>

text \<open>
  Claim C7: \<open>backup(stage)\<close> copies the sidecar files and the container file into
  \<open>Data/Backup\<close> if and only if \<open>stage mod backup_freq = 0\<close>, and a sidecar file that is
  absent is skipped without error. On a store ready for backup the call always returns
  normally. When the stage is due, the backup copy of each of the four files \<open>p\<close> holds
  what \<open>p\<close> holds if \<open>p\<close> exists and is untouched if \<open>p\<close> is absent, and no path other
  than the four backup copies changes. When the stage is not due, neither the store nor
  the file system changes.
\<close>

theorem backup_iff_due:
  assumes "backup_ready w" "p \<in> set backup_sources"
  shows "fst (backup stage w) = Inr () \<and>
     (if stage mod backup_freq (fst w) = 0
      then snd (snd (backup stage w)) (make_backup_path p) =
             (if snd w p = None then snd w (make_backup_path p) else snd w p) \<and>
           (q \<notin> set (map make_backup_path backup_sources) \<longrightarrow>
              snd (snd (backup stage w)) q = snd w q)
      else snd (backup stage w) = w)"
proof -
  obtain st fs where w: "w = (st, fs)" by (cases w)
  from assms(1) have freq: "backup_freq st \<noteq> 0" by (simp add: w backup_ready_def)
  show ?thesis
  proof (cases "stage mod backup_freq st = 0")
    case False
    with backup_not_due[OF freq False, of fs] show ?thesis by (simp add: w)
  next
    case True
    let ?fs4 = "copy_into (copy_into (copy_into (copy_into fs communicator_path) data_store_path)
         remd_runner_path) h5_path"
    have b: "backup stage (st, fs) =
       (Inr (), (st\<lparr>h5_file := Some \<lparr>h_path = h5_path, h_mode = ModeAppend, h_open = True\<rparr>\<rparr>, ?fs4))"
      using backup_due[OF assms(1)[unfolded w] True] .
    from assms(2) consider "p = communicator_path" | "p = data_store_path"
      | "p = remd_runner_path" | "p = h5_path"
      unfolding backup_sources_def by auto
    then have tgt: "?fs4 (make_backup_path p) =
        (if fs p = None then fs (make_backup_path p) else fs p)"
    proof cases
      case 1
      then show ?thesis by (simp add: copy_into_apply store_paths)
    next
      case 2
      then show ?thesis by (simp add: copy_into_apply store_paths)
    next
      case 3
      then show ?thesis by (simp add: copy_into_apply store_paths)
    next
      case 4
      then show ?thesis by (simp add: copy_into_apply store_paths)
    qed
    have oth: "q \<notin> set (map make_backup_path backup_sources) \<Longrightarrow> ?fs4 q = fs q"
      by (simp add: backup_sources_def copy_into_apply)
    from True b tgt oth show ?thesis by (simp add: w)
  qed
qed

theorem backup_iff_due_witness:
  "fst (backup 100 example_live_store) = Inr () \<and>
   snd (snd (backup 100 example_live_store)) ''Data/Backup/data_store.dat'' =
     Some (PickleFile (PickledStore (DataStore_getstate (DataStore_init 500 100 4 100)))) \<and>
   snd (snd (backup 100 example_live_store)) ''Data/Backup/communicator.dat'' = None \<and>
   snd (backup 1 example_live_store) = example_live_store"
proof -
  have r: "backup_ready example_live_store"
    by (simp add: example_live_store_def backup_ready_def backup_sources_def store_paths
        DataStore_init_def)
  have m: "data_store_path \<in> set backup_sources" "communicator_path \<in> set backup_sources"
    by (simp_all add: backup_sources_def)
  have v: "fst example_live_store = (DataStore_init 500 100 4 100)\<lparr>h5_file := Some \<lparr>h_path = h5_path, h_mode = ModeAppend, h_open = True\<rparr>\<rparr>"
    "snd example_live_store ''Data/data_store.dat'' =
       Some (PickleFile (PickledStore (DataStore_getstate (DataStore_init 500 100 4 100))))"
    "snd example_live_store ''Data/communicator.dat'' = None"
    "snd example_live_store ''Data/Backup/communicator.dat'' = None"
    by (simp_all add: example_live_store_def)
  show ?thesis
    using backup_iff_due[OF r m(1), of 100 "''Data''"] backup_iff_due[OF r m(2), of 100 "''Data''"]
      backup_iff_due[OF r m(1), of 1 "''Data''"] v
    by (simp add: store_paths DataStore_init_def)
qed

subsection \<open>C8: the container after a backup\<close>

text \<open>
  Claim C8: after a due \<open>backup\<close> has returned, the container handle is open again for
  read/append, so the saves and loads that follow work. The handle in the store is an
  open handle on \<open>Data/results.h5\<close> in append mode, the store is open on the same six
  series as before, a load of an existing stage returns what it returned before the
  backup, and a save of a value of the quantity's shape at an existing stage returns.
\<close>

theorem backup_reopens_container:
  assumes "store_ready n w" "backup_ready w" "stage mod backup_freq (fst w) = 0"
    "- int n \<le> s" "s < int n" "has_shape (slice_shape (fst w) q) v"
  shows "fst (backup stage w) = Inr () \<and>
     h5_file (fst (snd (backup stage w))) =
       Some \<lparr>h_path = h5_path, h_mode = ModeAppend, h_open = True\<rparr> \<and>
     store_ready n (snd (backup stage w)) \<and>
     fst (load_quantity q s (snd (backup stage w))) = fst (load_quantity q s w) \<and>
     (\<exists>x. fst (load_quantity q s (snd (backup stage w))) = Inr x) \<and>
     fst (save_quantity lib q v s (snd (backup stage w))) = Inr ()"
proof -
  obtain st fs where w: "w = (st, fs)" by (cases w)
  let ?st' = "st\<lparr>h5_file := Some \<lparr>h_path = h5_path, h_mode = ModeAppend, h_open = True\<rparr>\<rparr>"
  let ?fs4 = "copy_into (copy_into (copy_into (copy_into fs communicator_path) data_store_path)
         remd_runner_path) h5_path"
  have b: "backup stage (st, fs) = (Inr (), (?st', ?fs4))"
    using backup_due[OF assms(2)[unfolded w]] assms(3) by (simp add: w)
  from assms(1)[unfolded w] obtain h f where hf: "h5_file st = Some h" "h_open h"
    "h_path h = h5_path" "fs h5_path = Some (H5File f)" "container_ok st f n"
    by (rule store_readyE)
  have f4: "?fs4 h5_path = Some (H5File f)"
    using hf(4) by (simp add: copy_into_def store_paths)
  have ready: "store_ready n (?st', ?fs4)"
    using f4 hf(5) by (simp add: store_ready_def)
  obtain d where d: "f (series_name q) = Some d"
    using container_ok_series[OF hf(5), of q] by blast
  have same: "fst (load_quantity q s (?st', ?fs4)) = fst (load_quantity q s (st, fs))"
    using h5_getslice_open[where st="?st'" and p=h5_path and fs="?fs4" and f=f
        and name="series_name q" and d=d and s=s
        and h="\<lparr>h_path = h5_path, h_mode = ModeAppend, h_open = True\<rparr>"]
      h5_getslice_open[where st=st and h=h and p=h5_path and fs=fs and f=f
        and name="series_name q" and d=d and s=s] hf(1-4) f4 d
    by (simp add: load_quantity_getslice)
  obtain x where x: "load_quantity q s (?st', ?fs4) = (Inr x, (?st', ?fs4))"
    using load_quantity_ok[OF ready assms(4,5), of q] by blast
  have fits: "prod_list (slice_shape ?st' q) = 0 \<or> has_shape (slice_shape ?st' q) v"
    using assms(6) by (simp add: w)
  obtain fs' where sv: "save_quantity lib q v s (?st', ?fs4) = (Inr (), (?st', fs'))"
    using save_quantity_ok[OF ready assms(4,5) fits, where lib=lib] by blast
  have lx: "\<exists>y. fst (load_quantity q s (?st', ?fs4)) = Inr y" using x by simp
  have sx: "fst (save_quantity lib q v s (?st', ?fs4)) = Inr ()" using sv by simp
  show ?thesis
    unfolding w b using ready same lx sx by simp
qed

theorem backup_reopens_container_witness:
  "fst (backup 0 example_store) = Inr () \<and>
   h5_file (fst (snd (backup 0 example_store))) =
     Some \<lparr>h_path = h5_path, h_mode = ModeAppend, h_open = True\<rparr> \<and>
   store_ready 1 (snd (backup 0 example_store)) \<and>
   fst (load_quantity Lambdas 0 (snd (backup 0 example_store))) =
     fst (load_quantity Lambdas 0 example_store) \<and>
   (\<exists>x. fst (load_quantity Lambdas 0 (snd (backup 0 example_store))) = Inr x) \<and>
   fst (save_quantity example_h5py Lambdas example_lambdas 0 (snd (backup 0 example_store))) =
     Inr ()"
proof -
  have due: "0 mod backup_freq (fst example_store) = 0" by simp
  have lo: "- int 1 \<le> 0" and hi: "(0 :: int) < int 1" by simp_all
  have shp: "has_shape (slice_shape (fst example_store) Lambdas) example_lambdas"
    by (simp add: example_store_facts(2) has_shape_def example_lambdas_def DataStore_init_def)
  show ?thesis
    by (rule backup_reopens_container[OF example_store_facts(1) example_store_backup_ready
          due lo hi shp, of example_h5py])
qed

subsection \<open>C9: reloaded objects carry no handle\<close>

text \<open>
  Claim C9: the object that \<open>load_data_store\<close> or \<open>load_communicator\<close> returns never
  carries a live handle. Where the data directory exists, \<open>save_data_store\<close> followed by
  \<open>load_data_store\<close> returns the store with its construction parameters and with
  \<open>_h5_file\<close> set to \<open>None\<close>, and \<open>save_communicator\<close> followed by \<open>load_communicator\<close>
  returns the communicator with \<open>_mpi_comm\<close> set to \<open>None\<close>, whatever the handles were
  when saving; and whatever pickle is loaded, a store or communicator that comes out
  of it has no handle.
\<close>

theorem reload_carries_no_handle:
  assumes "snd w data_dir = Some Dir" "snd w data_store_path \<noteq> Some Dir"
    "snd w communicator_path \<noteq> Some Dir"
  shows "fst (save_data_store w) = Inr () \<and>
     fst (load_data_store (snd (snd (save_data_store w)))) =
       Inr (ObjDataStore ((fst w)\<lparr>h5_file := None\<rparr>) :: 'p pyobj) \<and>
     fst (save_communicator c w) = Inr () \<and>
     fst (load_communicator (snd (save_communicator c w))) =
       Inr (ObjCommunicator (c\<lparr>mpi_comm := None\<rparr>)) \<and>
     (case pickle_load x :: 'p pyobj of
        ObjDataStore st' \<Rightarrow> h5_file st' = None
      | ObjCommunicator c' \<Rightarrow> mpi_comm c' = None
      | ObjRunner b \<Rightarrow> True)"
proof -
  obtain st fs where w: "w = (st, fs)" by (cases w)
  have p1: "parent_ok fs data_store_path" "parent_ok fs communicator_path"
    using assms(1) by (simp_all add: w parent_ok_def path_values split_values data_dir_def)
  have s1: "save_data_store (st, fs) =
      (Inr (), (st, fs(data_store_path \<mapsto> PickleFile (PickledStore (DataStore_getstate st)))))"
    using assms(2) p1 by (simp add: w save_data_store_def on_fs_def write_pickle_def)
  have l1: "fst (load_data_store (fs(data_store_path \<mapsto> PickleFile (PickledStore (DataStore_getstate st)))))
      = Inr (ObjDataStore (st\<lparr>h5_file := None\<rparr>) :: 'p pyobj)"
    by (simp add: load_data_store_def read_pickle_def pickle_load_def DataStore_setstate_def
        DataStore_getstate_def)
  have s2: "save_communicator c (st, fs) =
      (Inr (), (st, fs(communicator_path \<mapsto> PickleFile (PickledComm (MPICommunicator_getstate c)))))"
    using assms(3) p1 by (simp add: w save_communicator_def on_fs_def write_pickle_def)
  have l2: "fst (load_communicator
       (st, fs(communicator_path \<mapsto> PickleFile (PickledComm (MPICommunicator_getstate c)))))
      = Inr (ObjCommunicator (c\<lparr>mpi_comm := None\<rparr>))"
    by (simp add: load_communicator_def on_fs_def read_pickle_def pickle_load_def
        MPICommunicator_setstate_def MPICommunicator_getstate_def)
  have g: "(case pickle_load x :: 'p pyobj of
        ObjDataStore st' \<Rightarrow> h5_file st' = None
      | ObjCommunicator c' \<Rightarrow> mpi_comm c' = None
      | ObjRunner b \<Rightarrow> True)"
    by (cases x) (simp_all add: pickle_load_def DataStore_setstate_def MPICommunicator_setstate_def)
  show ?thesis using l1 l2 g by (simp add: s1 s2 w)
qed

theorem reload_carries_no_handle_witness:
  "h5_file (fst example_live_store) \<noteq> None \<and> mpi_comm example_comm \<noteq> None \<and>
   fst (load_data_store (snd (snd (save_data_store example_live_store)))) =
     Inr (ObjDataStore (DataStore_init 500 100 4 100) :: int pyobj) \<and>
   fst (load_communicator (snd (save_communicator example_comm example_live_store))) =
     Inr (ObjCommunicator (example_comm\<lparr>mpi_comm := None\<rparr>))"
  using reload_carries_no_handle[of example_live_store example_comm "PickledRunner []",
      where ?'p = int]
  by (simp add: example_live_store_def example_comm_def data_dir_def path_values
      DataStore_init_def MPICommunicator_initialize_def)

subsection \<open>C10: \<open>initialize('new')\<close> on an existing directory\<close>

text \<open>
  Claim C10: when \<open>initialize('new')\<close> fails because the data directory exists, nothing
  has happened: the call raises \<open>RuntimeError('Data directory already exists')\<close> and the
  store (its handle included) and the file system are exactly as before.
\<close>

theorem initialize_new_existing_dir_atomic:
  assumes "snd w data_dir \<noteq> None"
  shows "initialize ''new'' w = (Inl (RuntimeError ''Data directory already exists''), w)"
  using assms
  by (cases w) (simp add: initialize_def py_bind_def py_raise_def on_fs_def os_path_exists_def)

theorem initialize_new_existing_dir_atomic_witness:
  "initialize ''new'' (DataStore_init 500 100 4 100, [''Data'' \<mapsto> Dir, ''Data/Backup'' \<mapsto> (Dir :: int node)]) =
     (Inl (RuntimeError ''Data directory already exists''),
      (DataStore_init 500 100 4 100, [''Data'' \<mapsto> Dir, ''Data/Backup'' \<mapsto> Dir]))"
  using initialize_new_existing_dir_atomic[of
      "(DataStore_init 500 100 4 100, [''Data'' \<mapsto> Dir, ''Data/Backup'' \<mapsto> (Dir :: int node)])"]
  by (simp add: data_dir_def)

end
